theory Spec2Isabelle
  imports Complex_Main "HOL-Library.Word"
begin

unbundle bit_operations_syntax

section \<open>The codec bridge of pdn-webp (\<^verbatim>\<open>src/WebP/WebP.cpp\<close>)\<close>

text \<open>
  The bridge is glue around the WebP codec library: each entry point makes a handful of
  library calls and moves results through caller-supplied memory. The library itself is
  not part of the repository, so every library function is a parameter of the model (a
  field of a record of functions), and what an entry point does beyond returning a value
  is written out as the list of calls it makes, in order.
\<close>

subsection \<open>Data\<close>

type_synonym byte = "8 word"

text \<open>Bytes of the bitmap, addressed by their signed offset from the \<^verbatim>\<open>data\<close>
  pointer (a bottom-up bitmap has a negative stride).\<close>

type_synonym memory = "int \<Rightarrow> byte"

text \<open>A pointer to a block handed out by the caller is \<open>Some a\<close>; \<open>None\<close> is
  \<^verbatim>\<open>nullptr\<close>.\<close>

type_synonym addr = nat
type_synonym pointer = "addr option"

text \<open>Function pointers of \<^verbatim>\<open>WebP.h\<close>: the progress callback is opaque, the
  allocator maps a byte count to a block or to \<^verbatim>\<open>nullptr\<close>.\<close>

type_synonym ProgressFn = nat
type_synonym OutputBufferAllocFn = "nat \<Rightarrow> pointer"

subsection \<open>Status codes and enumerations\<close>

text \<open>\<^verbatim>\<open>#define errVersionMismatch -1\<close> (\<^verbatim>\<open>WebP.h\<close>, line 76).\<close>

definition errVersionMismatch :: int where
  "errVersionMismatch = - 1"

text \<open>The remaining codes are enumerators of the codec library's headers
  (\<^verbatim>\<open>encode.h\<close>, \<^verbatim>\<open>decode.h\<close>, \<^verbatim>\<open>mux.h\<close>, \<^verbatim>\<open>mux_types.h\<close>), with the
  values those headers give them.\<close>

definition VP8_ENC_ERROR_OUT_OF_MEMORY :: int where
  "VP8_ENC_ERROR_OUT_OF_MEMORY = 1"

definition VP8_ENC_ERROR_NULL_PARAMETER :: int where
  "VP8_ENC_ERROR_NULL_PARAMETER = 3"

definition VP8_STATUS_OK :: int where
  "VP8_STATUS_OK = 0"

definition WEBP_MUX_OK :: int where
  "WEBP_MUX_OK = 1"

definition WEBP_MUX_INVALID_ARGUMENT :: int where
  "WEBP_MUX_INVALID_ARGUMENT = - 1"

definition WEBP_MUX_BAD_DATA :: int where
  "WEBP_MUX_BAD_DATA = - 2"

definition WEBP_MUX_MEMORY_ERROR :: int where
  "WEBP_MUX_MEMORY_ERROR = - 3"

text \<open>\<^verbatim>\<open>enum WebPPreset\<close>; \<^verbatim>\<open>EncodeParams::preset\<close> is an \<^verbatim>\<open>int\<close> compared
  with these by \<^verbatim>\<open><\<close>, so the numbering matters.\<close>

definition WEBP_PRESET_DEFAULT :: int where
  "WEBP_PRESET_DEFAULT = 0"

definition WEBP_PRESET_PICTURE :: int where
  "WEBP_PRESET_PICTURE = 1"

definition WEBP_PRESET_PHOTO :: int where
  "WEBP_PRESET_PHOTO = 2"

definition WEBP_PRESET_DRAWING :: int where
  "WEBP_PRESET_DRAWING = 3"

definition WEBP_PRESET_ICON :: int where
  "WEBP_PRESET_ICON = 4"

definition WEBP_PRESET_TEXT :: int where
  "WEBP_PRESET_TEXT = 5"

text \<open>\<^verbatim>\<open>enum WebPImageHint\<close>.\<close>

definition WEBP_HINT_DEFAULT :: int where
  "WEBP_HINT_DEFAULT = 0"

definition WEBP_HINT_PICTURE :: int where
  "WEBP_HINT_PICTURE = 1"

definition WEBP_HINT_PHOTO :: int where
  "WEBP_HINT_PHOTO = 2"

definition WEBP_HINT_GRAPH :: int where
  "WEBP_HINT_GRAPH = 3"

text \<open>\<^verbatim>\<open>enum WebPFeatureFlags\<close>: bits of the container's format-flags word.\<close>

definition XMP_FLAG :: "32 word" where
  "XMP_FLAG = 0x04"

definition EXIF_FLAG :: "32 word" where
  "EXIF_FLAG = 0x08"

definition ICCP_FLAG :: "32 word" where
  "ICCP_FLAG = 0x20"

datatype WEBP_CSP_MODE = MODE_RGB | MODE_RGBA | MODE_BGR | MODE_BGRA

datatype WebPFormatFeature = WEBP_FF_FORMAT_FLAGS | WEBP_FF_CANVAS_WIDTH | WEBP_FF_CANVAS_HEIGHT

text \<open>\<^verbatim>\<open>enum MetadataType\<close> of \<^verbatim>\<open>WebP.h\<close>.\<close>

datatype MetaDataType = ColorProfile | EXIF | XMP

named_theorems codes \<open>values of the status codes and enumerators\<close>

declare errVersionMismatch_def [codes]
  VP8_ENC_ERROR_OUT_OF_MEMORY_def [codes] VP8_ENC_ERROR_NULL_PARAMETER_def [codes]
  VP8_STATUS_OK_def [codes] WEBP_MUX_OK_def [codes] WEBP_MUX_INVALID_ARGUMENT_def [codes]
  WEBP_MUX_BAD_DATA_def [codes] WEBP_MUX_MEMORY_ERROR_def [codes]
  WEBP_PRESET_DEFAULT_def [codes] WEBP_PRESET_PICTURE_def [codes] WEBP_PRESET_PHOTO_def [codes]
  WEBP_PRESET_DRAWING_def [codes] WEBP_PRESET_ICON_def [codes] WEBP_PRESET_TEXT_def [codes]
  WEBP_HINT_DEFAULT_def [codes] WEBP_HINT_PICTURE_def [codes] WEBP_HINT_PHOTO_def [codes]
  WEBP_HINT_GRAPH_def [codes] XMP_FLAG_def [codes] EXIF_FLAG_def [codes] ICCP_FLAG_def [codes]

subsection \<open>Calls made by an entry point\<close>

text \<open>
  One constructor for each library call, allocator call, store through an out-parameter
  and copy that the source makes. \<open>Call_memcpy_s dest destSize src count\<close> records
  \<^verbatim>\<open>memcpy_s(dest, destSize, src, count)\<close>: the destination pointer, and the bytes
  found at the source pointer (\<open>None\<close> for a null source).
\<close>

datatype call =
    Call_WebPConfigPreset
  | Call_WebPPictureInit
  | Call_WebPMemoryWriterInit
  | Call_WebPPictureImportBGRA
  | Call_WebPPictureImportBGRX
  | Call_WebPEncode
  | Call_outputAllocator nat
  | Store_output pointer
  | Call_memcpy_s pointer nat "byte list option" nat
  | Call_WebPMemoryWriterClear
  | Call_WebPPictureFree
  | Call_WebPDemux
  | Call_WebPDemuxGetI
  | Call_WebPDemuxGetChunk string
  | Call_WebPDemuxReleaseChunkIterator
  | Call_WebPDemuxDelete
  | Call_WebPMuxNew
  | Call_WebPMuxSetImage
  | Call_WebPMuxSetChunk string
  | Call_WebPMuxAssemble
  | Call_WebPMuxDelete
  | Call_WebPDataClear

text \<open>What a status-returning entry point leaves behind: the returned code, the value
  held by the caller's out-parameter, and the calls made.\<close>

record outcome =
  ret :: int
  out :: pointer
  trace :: "call list"

subsection \<open>\<^verbatim>\<open>WebPLoad\<close> (lines 11--29)\<close>

record WebPDecBuffer =
  colorspace :: WEBP_CSP_MODE
  is_external_memory :: int
  rgba :: pointer
  rgba_size :: "32 word"
  rgba_stride :: int

record WebPDecoderConfig =
  output_buffer :: WebPDecBuffer

text \<open>The decoder: \<^verbatim>\<open>WebPInitDecoderConfig\<close> yields a configuration or fails
  (returns 0); \<^verbatim>\<open>WebPDecode\<close> returns a \<^verbatim>\<open>VP8StatusCode\<close>.\<close>

record decoder_lib =
  WebPInitDecoderConfig :: "WebPDecoderConfig option"
  WebPDecode :: "byte list \<Rightarrow> nat \<Rightarrow> WebPDecoderConfig \<Rightarrow> int"

definition WebPLoad_config :: "WebPDecoderConfig \<Rightarrow> pointer \<Rightarrow> 32 word \<Rightarrow> int \<Rightarrow> WebPDecoderConfig" where
  "WebPLoad_config config outData outSize outStride =
     config\<lparr>output_buffer := (output_buffer config)
       \<lparr>colorspace := MODE_BGRA,
        is_external_memory := 1,
        rgba := outData,
        rgba_size := outSize,
        rgba_stride := outStride\<rparr>\<rparr>"

definition WebPLoad :: "decoder_lib \<Rightarrow> byte list \<Rightarrow> nat \<Rightarrow> pointer \<Rightarrow> 32 word \<Rightarrow> int \<Rightarrow> int" where
  "WebPLoad lib data dataSize outData outSize outStride =
     (case WebPInitDecoderConfig lib of
        None \<Rightarrow> errVersionMismatch
      | Some config \<Rightarrow>
          WebPDecode lib data dataSize (WebPLoad_config config outData outSize outStride))"

subsection \<open>\<^verbatim>\<open>HasTransparency\<close> (lines 31--48)\<close>

text \<open>
  The two loops, with the list of offsets read so far passed along: the result is the
  returned flag together with every offset whose byte was tested, in the order of the
  tests.

  \<^verbatim>\<open>width\<close>, \<^verbatim>\<open>height\<close>, \<^verbatim>\<open>stride\<close>, \<^verbatim>\<open>x\<close> and \<^verbatim>\<open>y\<close> are 32-bit
  \<^verbatim>\<open>int\<close>s. The counters stay below \<^verbatim>\<open>width\<close> and \<^verbatim>\<open>height\<close>, so their
  increments cannot overflow; the product \<^verbatim>\<open>y * stride\<close> of line 37 can. It is a
  product of two 32-bit \<^verbatim>\<open>int\<close>s, taken here with the wrap-around of the machine
  multiplication (signed overflow is undefined behaviour in the language), and then
  added to the pointer.
\<close>

definition row_offset :: "int \<Rightarrow> int \<Rightarrow> int" where
  "row_offset y stride = sint (word_of_int y * word_of_int stride :: 32 word)"

function scan_pixels :: "memory \<Rightarrow> int \<Rightarrow> int \<Rightarrow> int \<Rightarrow> int list \<Rightarrow> bool \<times> int list" where
  "scan_pixels mem ptr x width reads =
     (if x < width then
        (if mem (ptr + 3) < 255 then (True, reads @ [ptr + 3])
         else scan_pixels mem (ptr + 4) (x + 1) width (reads @ [ptr + 3]))
      else (False, reads))"
  by pat_completeness auto
termination
  by (relation "measure (\<lambda>(mem, ptr, x, width, reads). nat (width - x))") auto

function scan_rows :: "memory \<Rightarrow> int \<Rightarrow> int \<Rightarrow> int \<Rightarrow> int \<Rightarrow> int list \<Rightarrow> bool \<times> int list" where
  "scan_rows mem y width height stride reads =
     (if y < height then
        (case scan_pixels mem (row_offset y stride) 0 width reads of
           (True, reads') \<Rightarrow> (True, reads')
         | (False, reads') \<Rightarrow> scan_rows mem (y + 1) width height stride reads')
      else (False, reads))"
  by pat_completeness auto
termination
  by (relation "measure (\<lambda>(mem, y, width, height, stride, reads). nat (height - y))") auto

declare scan_pixels.simps [simp del] scan_rows.simps [simp del]

definition HasTransparency :: "memory \<Rightarrow> int \<Rightarrow> int \<Rightarrow> int \<Rightarrow> bool \<times> int list" where
  "HasTransparency data width height stride = scan_rows data 0 width height stride []"

text \<open>
  The offsets of the alpha bytes that the loops visit, in the order of the visits, with
  the row offsets as the source computes them; \<open>through P xs\<close> is the prefix of \<open>xs\<close>
  up to and including its first element that satisfies \<open>P\<close>.
\<close>

fun through :: "('a \<Rightarrow> bool) \<Rightarrow> 'a list \<Rightarrow> 'a list" where
  "through P [] = []"
| "through P (x # xs) = (if P x then [x] else x # through P xs)"

definition read_row_offsets :: "int \<Rightarrow> int \<Rightarrow> int \<Rightarrow> int list" where
  "read_row_offsets width stride y = map (\<lambda>x. row_offset y stride + 4 * x + 3) [0..width - 1]"

definition read_offsets :: "int \<Rightarrow> int \<Rightarrow> int \<Rightarrow> int list" where
  "read_offsets width height stride = concat (map (read_row_offsets width stride) [0..height - 1])"

text \<open>
  The scan as the specification words it: the alpha offsets of the region in row-major
  order (rows from the top, pixels from the left), pixel \<open>(x, y)\<close> lying at
  \<open>y * stride + 4 * x\<close>.
\<close>

definition row_alpha_offsets :: "int \<Rightarrow> int \<Rightarrow> int \<Rightarrow> int list" where
  "row_alpha_offsets width stride y = map (\<lambda>x. y * stride + 4 * x + 3) [0..width - 1]"

definition alpha_offsets :: "int \<Rightarrow> int \<Rightarrow> int \<Rightarrow> int list" where
  "alpha_offsets width height stride = concat (map (row_alpha_offsets width stride) [0..height - 1])"

subsection \<open>\<^verbatim>\<open>WebPSave\<close> (lines 58--169)\<close>

text \<open>The fields of \<^verbatim>\<open>EncodeParams\<close> that \<^verbatim>\<open>WebPSave\<close> reads; \<^verbatim>\<open>quality\<close> is
  a \<^verbatim>\<open>float\<close>, used only in the comparison with 100 and as an argument of the
  preset initialiser.\<close>

record EncodeParams =
  quality :: real
  preset :: int
  params_method :: int
  fileSize :: int
  filterStrength :: int
  filterType :: int
  sharpness :: int
  noiseShaping :: int

text \<open>The fields of the library's \<^verbatim>\<open>WebPConfig\<close> and \<^verbatim>\<open>WebPPicture\<close> that the
  source assigns or reads. \<open>params_method\<close> and \<open>config_method\<close> stand for the two
  fields called \<^verbatim>\<open>method\<close>.\<close>

record WebPConfig =
  lossless :: int
  config_method :: int
  image_hint :: int
  target_size :: int
  filter_strength :: int
  filter_type :: int
  filter_sharpness :: int
  sns_strength :: int
  thread_level :: int

datatype writer_function = WebPMemoryWrite
datatype local_object = Local_wrt
datatype hook_function = progressFunc

record WebPPicture =
  use_argb :: int
  pic_width :: int
  pic_height :: int
  writer :: "writer_function option"
  custom_ptr :: "local_object option"
  user_data :: "ProgressFn option"
  progress_hook :: "hook_function option"
  error_code :: int

record WebPMemoryWriter =
  wrt_mem :: "byte list"
  wrt_size :: nat

text \<open>
  The encoder. The initialisers fail by returning 0 (\<open>None\<close>); the importers return a
  C boolean and the picture as they leave it; \<^verbatim>\<open>WebPEncode\<close> returns a C boolean, the
  picture (whose \<open>error_code\<close> it sets) and the memory writer it filled through
  \<open>custom_ptr\<close>.
\<close>

record encoder_lib =
  WebPConfigPreset :: "int \<Rightarrow> real \<Rightarrow> WebPConfig option"
  WebPPictureInit :: "WebPPicture option"
  WebPPictureImportBGRA :: "WebPPicture \<Rightarrow> memory \<Rightarrow> int \<Rightarrow> int \<times> WebPPicture"
  WebPPictureImportBGRX :: "WebPPicture \<Rightarrow> memory \<Rightarrow> int \<Rightarrow> int \<times> WebPPicture"
  WebPEncode :: "WebPConfig \<Rightarrow> WebPPicture \<Rightarrow> int \<times> WebPPicture \<times> WebPMemoryWriter"

text \<open>Lines 82--117: the configuration after the preset initialiser.\<close>

definition WebPSave_configure :: "EncodeParams \<Rightarrow> WebPConfig \<times> WebPPicture \<Rightarrow> WebPConfig \<times> WebPPicture" where
  "WebPSave_configure params cp =
     (let config = (fst cp)\<lparr>config_method := params_method params, thread_level := 1\<rparr>;
          pic = snd cp
      in if quality params = 100 then
           (let config = config\<lparr>lossless := 1\<rparr>;
                pic = pic\<lparr>use_argb := 1\<rparr>
            in if preset params = WEBP_PRESET_PHOTO then
                 (config\<lparr>image_hint := WEBP_HINT_PHOTO\<rparr>, pic)
               else if preset params = WEBP_PRESET_PICTURE then
                 (config\<lparr>image_hint := WEBP_HINT_PICTURE\<rparr>, pic)
               else if preset params = WEBP_PRESET_DRAWING then
                 (config\<lparr>image_hint := WEBP_HINT_GRAPH\<rparr>, pic)
               else (config, pic))
         else
           (let config = (if fileSize params > 0
                          then config\<lparr>target_size := fileSize params\<rparr> else config);
                config = (if preset params < WEBP_PRESET_ICON
                          then config\<lparr>filter_strength := filterStrength params\<rparr> else config);
                config = config\<lparr>filter_type := filterType params,
                                filter_sharpness := sharpness params,
                                sns_strength := noiseShaping params\<rparr>
            in (config, pic)))"

text \<open>Lines 119--124: the picture handed to the importer.\<close>

definition WebPSave_picture :: "WebPPicture \<Rightarrow> int \<Rightarrow> int \<Rightarrow> WebPPicture" where
  "WebPSave_picture pic width height =
     pic\<lparr>pic_width := width, pic_height := height,
         writer := Some WebPMemoryWrite, custom_ptr := Some Local_wrt\<rparr>"

text \<open>Lines 126--140: the import chosen by the transparency scan.\<close>

definition WebPSave_import :: "encoder_lib \<Rightarrow> WebPPicture \<Rightarrow> memory \<Rightarrow> int \<Rightarrow> int \<Rightarrow> int \<Rightarrow> (int \<times> WebPPicture) \<times> call" where
  "WebPSave_import lib pic bitmap width height stride =
     (if fst (HasTransparency bitmap width height stride)
      then (WebPPictureImportBGRA lib pic bitmap stride, Call_WebPPictureImportBGRA)
      else (WebPPictureImportBGRX lib pic bitmap stride, Call_WebPPictureImportBGRX))"

text \<open>Lines 142--146: the progress hook.\<close>

definition WebPSave_hook :: "WebPPicture \<Rightarrow> ProgressFn option \<Rightarrow> WebPPicture" where
  "WebPSave_hook pic callback =
     (case callback of
        None \<Rightarrow> pic
      | Some cb \<Rightarrow> pic\<lparr>user_data := Some cb, progress_hook := Some progressFunc\<rparr>)"

text \<open>Lines 148--168: the encode, the delivery of the stream through the allocator, and
  the release of the writer and the picture. \<open>t\<close> is the trace up to here, \<open>output\<close>
  the value held by \<^verbatim>\<open>*output\<close> on entry.\<close>

definition WebPSave_encode :: "encoder_lib \<Rightarrow> pointer \<Rightarrow> OutputBufferAllocFn \<Rightarrow> WebPConfig \<Rightarrow> WebPPicture \<Rightarrow> call list \<Rightarrow> outcome" where
  "WebPSave_encode lib output outputAllocator config pic t =
     (case WebPEncode lib config pic of (encoded, pic', wrt) \<Rightarrow>
        (let r =
           (if encoded \<noteq> 0 then
              (case outputAllocator (wrt_size wrt) of
                 Some a \<Rightarrow>
                   \<lparr>ret = 0, out = Some a,
                    trace = t @ [Call_WebPEncode, Call_outputAllocator (wrt_size wrt),
                                 Store_output (Some a),
                                 Call_memcpy_s (Some a) (wrt_size wrt) (Some (wrt_mem wrt)) (wrt_size wrt)]\<rparr>
               | None \<Rightarrow>
                   \<lparr>ret = VP8_ENC_ERROR_OUT_OF_MEMORY, out = None,
                    trace = t @ [Call_WebPEncode, Call_outputAllocator (wrt_size wrt),
                                 Store_output None]\<rparr>)
            else \<lparr>ret = error_code pic', out = output, trace = t @ [Call_WebPEncode]\<rparr>)
         in r\<lparr>trace := trace r @ [Call_WebPMemoryWriterClear, Call_WebPPictureFree]\<rparr>))"

definition WebPSave :: "encoder_lib \<Rightarrow> pointer \<Rightarrow> OutputBufferAllocFn option \<Rightarrow> memory \<Rightarrow> int \<Rightarrow> int \<Rightarrow> int \<Rightarrow> EncodeParams \<Rightarrow> ProgressFn option \<Rightarrow> outcome" where
  "WebPSave lib output outputAllocator bitmap width height stride params callback =
     (case outputAllocator of
        None \<Rightarrow> \<lparr>ret = VP8_ENC_ERROR_NULL_PARAMETER, out = output, trace = []\<rparr>
      | Some alloc \<Rightarrow>
         (case WebPConfigPreset lib (preset params) (quality params) of
            None \<Rightarrow> \<lparr>ret = errVersionMismatch, out = output, trace = [Call_WebPConfigPreset]\<rparr>
          | Some config0 \<Rightarrow>
             (case WebPPictureInit lib of
                None \<Rightarrow> \<lparr>ret = errVersionMismatch, out = output,
                          trace = [Call_WebPConfigPreset, Call_WebPPictureInit]\<rparr>
              | Some pic0 \<Rightarrow>
                 (case WebPSave_configure params (config0, pic0) of (config, pic1) \<Rightarrow>
                    (case WebPSave_import lib (WebPSave_picture pic1 width height)
                            bitmap width height stride of
                       ((imported, pic2), import_call) \<Rightarrow>
                         (let t = [Call_WebPConfigPreset, Call_WebPPictureInit,
                                   Call_WebPMemoryWriterInit, import_call]
                          in if imported = 0 then
                               \<lparr>ret = VP8_ENC_ERROR_OUT_OF_MEMORY, out = output, trace = t\<rparr>
                             else
                               WebPSave_encode lib output alloc config
                                 (WebPSave_hook pic2 callback) t))))))"

subsection \<open>\<^verbatim>\<open>GetMetaDataSize\<close> and \<^verbatim>\<open>ExtractMetaData\<close> (lines 171--258)\<close>

text \<open>\<^verbatim>\<open>WebPData\<close>: a pointer (here the bytes it points to, \<open>None\<close> for a null
  pointer) and a byte count.\<close>

record WebPData =
  data_bytes :: "byte list option"
  data_size :: nat

record WebPChunkIterator =
  chunk :: WebPData

text \<open>\<^verbatim>\<open>memset(&iter, 0, sizeof(WebPChunkIterator))\<close>.\<close>

definition zero_iterator :: WebPChunkIterator where
  "zero_iterator = \<lparr>chunk = \<lparr>data_bytes = None, data_size = 0\<rparr>\<rparr>"

text \<open>
  The demultiplexer over handles of type \<open>'d\<close>: \<^verbatim>\<open>WebPDemux\<close> yields a handle or
  \<^verbatim>\<open>nullptr\<close>; \<^verbatim>\<open>WebPDemuxGetI\<close> reads a feature word; \<^verbatim>\<open>WebPDemuxGetChunk\<close>
  returns a C boolean and the iterator as it leaves it.
\<close>

record 'd demux_lib =
  WebPDemux :: "WebPData \<Rightarrow> 'd option"
  WebPDemuxGetI :: "'d \<Rightarrow> WebPFormatFeature \<Rightarrow> 32 word"
  WebPDemuxGetChunk :: "'d \<Rightarrow> string \<Rightarrow> int \<Rightarrow> WebPChunkIterator \<Rightarrow> int \<times> WebPChunkIterator"

text \<open>The \<^verbatim>\<open>switch (type)\<close> shared by both functions (lines 187--207 and 231--251):
  the iterator after it, and the calls made.\<close>

definition find_chunk :: "'d demux_lib \<Rightarrow> 'd \<Rightarrow> 32 word \<Rightarrow> MetaDataType \<Rightarrow> WebPChunkIterator \<Rightarrow> WebPChunkIterator \<times> call list" where
  "find_chunk lib demux flags type iter =
     (case type of
        ColorProfile \<Rightarrow>
          (if flags AND ICCP_FLAG \<noteq> 0
           then (snd (WebPDemuxGetChunk lib demux ''ICCP'' 1 iter), [Call_WebPDemuxGetChunk ''ICCP''])
           else (iter, []))
      | EXIF \<Rightarrow>
          (if flags AND EXIF_FLAG \<noteq> 0
           then (snd (WebPDemuxGetChunk lib demux ''EXIF'' 1 iter), [Call_WebPDemuxGetChunk ''EXIF''])
           else (iter, []))
      | XMP \<Rightarrow>
          (if flags AND XMP_FLAG \<noteq> 0
           then (snd (WebPDemuxGetChunk lib demux ''XMP '' 1 iter), [Call_WebPDemuxGetChunk ''XMP ''])
           else (iter, [])))"

text \<open>\<^verbatim>\<open>GetMetaDataSize\<close>: the value left in \<^verbatim>\<open>*outSize\<close> and the calls made.\<close>

definition GetMetaDataSize :: "'d demux_lib \<Rightarrow> byte list \<Rightarrow> nat \<Rightarrow> MetaDataType \<Rightarrow> 32 word \<times> call list" where
  "GetMetaDataSize lib data dataSize type =
     (let outSize = 0;
          webpData = \<lparr>data_bytes = Some data, data_size = dataSize\<rparr>
      in case WebPDemux lib webpData of
           None \<Rightarrow> (outSize, [Call_WebPDemux])
         | Some demux \<Rightarrow>
             (let flags = WebPDemuxGetI lib demux WEBP_FF_FORMAT_FLAGS;
                  (iter, calls) = find_chunk lib demux flags type zero_iterator
              in (word_of_nat (data_size (chunk iter)),
                  [Call_WebPDemux, Call_WebPDemuxGetI] @ calls @
                  [Call_WebPDemuxReleaseChunkIterator, Call_WebPDemuxDelete])))"

text \<open>\<^verbatim>\<open>ExtractMetaData\<close> returns nothing; the model gives the calls made, among them
  the copy into \<^verbatim>\<open>outData\<close>.\<close>

definition ExtractMetaData :: "'d demux_lib \<Rightarrow> byte list \<Rightarrow> nat \<Rightarrow> pointer \<Rightarrow> 32 word \<Rightarrow> MetaDataType \<Rightarrow> call list" where
  "ExtractMetaData lib data dataSize outData outSize type =
     (let webpData = \<lparr>data_bytes = Some data, data_size = dataSize\<rparr>
      in case WebPDemux lib webpData of
           None \<Rightarrow> [Call_WebPDemux]
         | Some demux \<Rightarrow>
             (let flags = WebPDemuxGetI lib demux WEBP_FF_FORMAT_FLAGS;
                  (iter, calls) = find_chunk lib demux flags type zero_iterator
              in [Call_WebPDemux, Call_WebPDemuxGetI] @ calls @
                 [Call_memcpy_s outData (unat outSize) (data_bytes (chunk iter)) (unat outSize),
                  Call_WebPDemuxReleaseChunkIterator, Call_WebPDemuxDelete]))"

subsection \<open>\<^verbatim>\<open>SetMetaData\<close> (lines 260--336)\<close>

record MetaDataParams =
  iccProfile :: "byte list option"
  iccProfileSize :: "32 word"
  exif :: "byte list option"
  exifSize :: "32 word"
  xmp :: "byte list option"
  xmpSize :: "32 word"

text \<open>
  The multiplexer over handles of type \<open>'m\<close>: \<^verbatim>\<open>WebPMuxNew\<close> yields a handle or
  \<^verbatim>\<open>nullptr\<close>; the setters return a \<^verbatim>\<open>WebPMuxError\<close> and the handle as they leave
  it; \<^verbatim>\<open>WebPMuxAssemble\<close> returns a \<^verbatim>\<open>WebPMuxError\<close> and the assembled data.
\<close>

record 'm mux_lib =
  WebPMuxNew :: "'m option"
  WebPMuxSetImage :: "'m \<Rightarrow> WebPData \<Rightarrow> int \<Rightarrow> int \<times> 'm"
  WebPMuxSetChunk :: "'m \<Rightarrow> string \<Rightarrow> WebPData \<Rightarrow> int \<Rightarrow> int \<times> 'm"
  WebPMuxAssemble :: "'m \<Rightarrow> int \<times> WebPData"

text \<open>The locals \<^verbatim>\<open>error\<close> and \<^verbatim>\<open>mux\<close>, with the calls made so far.\<close>

record 'm mux_state =
  error :: int
  mux :: 'm
  calls :: "call list"

text \<open>Lines 283--305: the three conditional chunk settings.\<close>

definition set_iccp :: "'m mux_lib \<Rightarrow> MetaDataParams \<Rightarrow> 'm mux_state \<Rightarrow> 'm mux_state" where
  "set_iccp lib metaData s =
     (if iccProfileSize metaData > 0 then
        (case WebPMuxSetChunk lib (mux s) ''ICCP''
                \<lparr>data_bytes = iccProfile metaData, data_size = unat (iccProfileSize metaData)\<rparr> 1 of
           (e, m) \<Rightarrow> \<lparr>error = e, mux = m, calls = calls s @ [Call_WebPMuxSetChunk ''ICCP'']\<rparr>)
      else s)"

definition set_exif :: "'m mux_lib \<Rightarrow> MetaDataParams \<Rightarrow> 'm mux_state \<Rightarrow> 'm mux_state" where
  "set_exif lib metaData s =
     (if error s = WEBP_MUX_OK \<and> exifSize metaData > 0 then
        (case WebPMuxSetChunk lib (mux s) ''EXIF''
                \<lparr>data_bytes = exif metaData, data_size = unat (exifSize metaData)\<rparr> 1 of
           (e, m) \<Rightarrow> \<lparr>error = e, mux = m, calls = calls s @ [Call_WebPMuxSetChunk ''EXIF'']\<rparr>)
      else s)"

definition set_xmp :: "'m mux_lib \<Rightarrow> MetaDataParams \<Rightarrow> 'm mux_state \<Rightarrow> 'm mux_state" where
  "set_xmp lib metaData s =
     (if error s = WEBP_MUX_OK \<and> xmpSize metaData > 0 then
        (case WebPMuxSetChunk lib (mux s) ''XMP ''
                \<lparr>data_bytes = xmp metaData, data_size = unat (xmpSize metaData)\<rparr> 1 of
           (e, m) \<Rightarrow> \<lparr>error = e, mux = m, calls = calls s @ [Call_WebPMuxSetChunk ''XMP '']\<rparr>)
      else s)"

text \<open>Lines 307--331: assembly, release of the multiplexer, delivery through the
  allocator.\<close>

definition SetMetaData_assemble :: "'m mux_lib \<Rightarrow> pointer \<Rightarrow> OutputBufferAllocFn \<Rightarrow> 'm mux_state \<Rightarrow> outcome" where
  "SetMetaData_assemble lib outImage outputAllocator s =
     (case WebPMuxAssemble lib (mux s) of (e, assembledData) \<Rightarrow>
        (let t = calls s @ [Call_WebPMuxAssemble, Call_WebPMuxDelete]
         in if e = WEBP_MUX_OK then
              (case outputAllocator (data_size assembledData) of
                 None \<Rightarrow>
                   \<lparr>ret = WEBP_MUX_MEMORY_ERROR, out = None,
                    trace = t @ [Call_outputAllocator (data_size assembledData),
                                 Store_output None, Call_WebPDataClear]\<rparr>
               | Some a \<Rightarrow>
                   \<lparr>ret = e, out = Some a,
                    trace = t @ [Call_outputAllocator (data_size assembledData),
                                 Store_output (Some a),
                                 Call_memcpy_s (Some a) (data_size assembledData)
                                   (data_bytes assembledData) (data_size assembledData),
                                 Call_WebPDataClear]\<rparr>)
            else \<lparr>ret = e, out = outImage, trace = t\<rparr>))"

definition SetMetaData :: "'m mux_lib \<Rightarrow> byte list \<Rightarrow> nat \<Rightarrow> pointer \<Rightarrow> OutputBufferAllocFn option \<Rightarrow> MetaDataParams \<Rightarrow> outcome" where
  "SetMetaData lib imageBytes imageSize outImage outputAllocator metaData =
     (case outputAllocator of
        None \<Rightarrow> \<lparr>ret = WEBP_MUX_INVALID_ARGUMENT, out = outImage, trace = []\<rparr>
      | Some alloc \<Rightarrow>
         (case WebPMuxNew lib of
            None \<Rightarrow> \<lparr>ret = WEBP_MUX_MEMORY_ERROR, out = outImage, trace = [Call_WebPMuxNew]\<rparr>
          | Some mux0 \<Rightarrow>
             (case WebPMuxSetImage lib mux0 \<lparr>data_bytes = Some imageBytes, data_size = imageSize\<rparr> 0 of
                (e, m) \<Rightarrow>
                  (let s = \<lparr>error = e, mux = m, calls = [Call_WebPMuxNew, Call_WebPMuxSetImage]\<rparr>
                   in if error s = WEBP_MUX_OK then
                        (let s = set_xmp lib metaData (set_exif lib metaData (set_iccp lib metaData s))
                         in if error s = WEBP_MUX_OK
                            then SetMetaData_assemble lib outImage alloc s
                            else \<lparr>ret = error s, out = outImage, trace = calls s\<rparr>)
                      else \<lparr>ret = error s, out = outImage, trace = calls s\<rparr>))))"

subsection \<open>Concrete libraries and inputs\<close>

text \<open>
  Inputs at which the theorems below are instantiated and the source is traced by hand.
  The stub libraries answer every call with a fixed result; their flags say which calls
  succeed.
\<close>

definition opaque_bitmap :: memory where
  "opaque_bitmap = (\<lambda>a. 255)"

definition dented_bitmap :: memory where
  "dented_bitmap = (\<lambda>a. if a = 19 then 254 else 255)"

definition stub_config :: WebPConfig where
  "stub_config = \<lparr>lossless = 0, config_method = 4, image_hint = 0, target_size = 0,
     filter_strength = 0, filter_type = 1, filter_sharpness = 0, sns_strength = 0,
     thread_level = 0\<rparr>"

definition stub_picture :: WebPPicture where
  "stub_picture = \<lparr>use_argb = 0, pic_width = 0, pic_height = 0, writer = None,
     custom_ptr = None, user_data = None, progress_hook = None, error_code = 0\<rparr>"

definition stub_encoder :: "bool \<Rightarrow> bool \<Rightarrow> bool \<Rightarrow> bool \<Rightarrow> encoder_lib" where
  "stub_encoder preset_ok init_ok import_ok encode_ok =
     \<lparr>WebPConfigPreset = (\<lambda>p q. if preset_ok then Some stub_config else None),
      WebPPictureInit = (if init_ok then Some stub_picture else None),
      WebPPictureImportBGRA = (\<lambda>pic bitmap stride. (if import_ok then 1 else 0, pic)),
      WebPPictureImportBGRX = (\<lambda>pic bitmap stride. (if import_ok then 1 else 0, pic)),
      WebPEncode = (\<lambda>config pic.
         if encode_ok then (1, pic, \<lparr>wrt_mem = [82, 73, 70, 70], wrt_size = 4\<rparr>)
         else (0, pic\<lparr>error_code := 4\<rparr>, \<lparr>wrt_mem = [], wrt_size = 0\<rparr>))\<rparr>"

definition lossy_text_params :: EncodeParams where
  "lossy_text_params = \<lparr>quality = 75, preset = WEBP_PRESET_TEXT, params_method = 4, fileSize = 0,
     filterStrength = 20, filterType = 1, sharpness = 3, noiseShaping = 50\<rparr>"

definition lossless_photo_params :: EncodeParams where
  "lossless_photo_params = \<lparr>quality = 100, preset = WEBP_PRESET_PHOTO, params_method = 4, fileSize = 0,
     filterStrength = 20, filterType = 1, sharpness = 3, noiseShaping = 50\<rparr>"

definition alloc_at :: "addr \<Rightarrow> OutputBufferAllocFn" where
  "alloc_at a = (\<lambda>n. Some a)"

definition alloc_fails :: OutputBufferAllocFn where
  "alloc_fails = (\<lambda>n. None)"

definition stub_decoder_config :: WebPDecoderConfig where
  "stub_decoder_config = \<lparr>output_buffer = \<lparr>colorspace = MODE_RGB, is_external_memory = 0,
     rgba = None, rgba_size = 0, rgba_stride = 0\<rparr>\<rparr>"

text \<open>A decoder that reports \<open>status\<close> when it is handed an external BGRA buffer, and
  status 2 (\<^verbatim>\<open>VP8_STATUS_INVALID_PARAM\<close>) otherwise.\<close>

definition stub_decoder :: "bool \<Rightarrow> int \<Rightarrow> decoder_lib" where
  "stub_decoder init_ok status =
     \<lparr>WebPInitDecoderConfig = (if init_ok then Some stub_decoder_config else None),
      WebPDecode = (\<lambda>data dataSize config.
         if colorspace (output_buffer config) = MODE_BGRA
            \<and> is_external_memory (output_buffer config) = 1
         then status else 2)\<rparr>"

text \<open>A demultiplexer that opens the container when \<open>ok\<close>, reports the format flags
  \<open>flags\<close> and finds the chunks that \<open>chunks\<close> lists; a chunk it does not find leaves
  the iterator zeroed.\<close>

definition stub_demux :: "bool \<Rightarrow> 32 word \<Rightarrow> (string \<Rightarrow> WebPData option) \<Rightarrow> unit demux_lib" where
  "stub_demux ok flags chunks =
     \<lparr>WebPDemux = (\<lambda>d. if ok then Some () else None),
      WebPDemuxGetI = (\<lambda>demux feature. flags),
      WebPDemuxGetChunk = (\<lambda>demux fourcc n iter.
         case chunks fourcc of
           None \<Rightarrow> (0, zero_iterator)
         | Some c \<Rightarrow> (1, \<lparr>chunk = c\<rparr>))\<rparr>"

text \<open>A multiplexer whose calls return the given \<^verbatim>\<open>WebPMuxError\<close> codes.\<close>

definition stub_mux :: "bool \<Rightarrow> int \<Rightarrow> (string \<Rightarrow> int) \<Rightarrow> int \<Rightarrow> unit mux_lib" where
  "stub_mux new_ok image_status chunk_status assemble_status =
     \<lparr>WebPMuxNew = (if new_ok then Some () else None),
      WebPMuxSetImage = (\<lambda>m d copy_data. (image_status, m)),
      WebPMuxSetChunk = (\<lambda>m fourcc d copy_data. (chunk_status fourcc, m)),
      WebPMuxAssemble = (\<lambda>m.
         (assemble_status, \<lparr>data_bytes = Some [82, 73, 70, 70], data_size = 4\<rparr>))\<rparr>"

definition no_metadata :: MetaDataParams where
  "no_metadata = \<lparr>iccProfile = None, iccProfileSize = 0, exif = None, exifSize = 0,
     xmp = None, xmpSize = 0\<rparr>"

definition icc_metadata :: MetaDataParams where
  "icc_metadata = \<lparr>iccProfile = Some [1, 2, 3], iccProfileSize = 3, exif = None, exifSize = 0,
     xmp = None, xmpSize = 0\<rparr>"

section \<open>Properties\<close>

subsection \<open>The transparency scan\<close>

lemma through_append:
  "through P (xs @ ys) = (if \<exists>x\<in>set xs. P x then through P xs else xs @ through P ys)"
  by (induction xs) auto

lemma through_miss: "\<not> (\<exists>x\<in>set xs. P x) \<Longrightarrow> through P xs = xs"
  by (induction xs) auto

lemma through_hit: "(\<exists>x\<in>set (through P xs). P x) \<longleftrightarrow> (\<exists>x\<in>set xs. P x)"
  by (induction xs) auto

text \<open>
  The inner loop, started at column \<open>x\<close> with \<open>ptr\<close> at that pixel, tests the alpha
  bytes of the remaining pixels of the row from left to right and stops at the first one
  below 255.
\<close>

lemma scan_pixels_spec:
  "scan_pixels mem ptr x width reads =
     ((\<exists>a\<in>set (map (\<lambda>i. ptr + 4 * (i - x) + 3) [x..width - 1]). mem a < 255),
      reads @ through (\<lambda>a. mem a < 255) (map (\<lambda>i. ptr + 4 * (i - x) + 3) [x..width - 1]))"
proof (induction mem ptr x width reads rule: scan_pixels.induct)
  case (1 mem ptr x width reads)
  show ?case
  proof (cases "x < width")
    case False
    then show ?thesis by (subst scan_pixels.simps) simp
  next
    case True
    then have up: "[x..width - 1] = x # [x + 1..width - 1]"
      by (simp add: upto_rec1)
    have shift: "map (\<lambda>i. ptr + 4 * (i - x) + 3) [x + 1..width - 1]
               = map (\<lambda>i. ptr + 4 + 4 * (i - (x + 1)) + 3) [x + 1..width - 1]"
      by (rule map_cong) (auto simp: algebra_simps)
    show ?thesis
    proof (cases "mem (ptr + 3) < 255")
      case hit: True
      with True show ?thesis
        by (subst scan_pixels.simps) (simp add: up)
    next
      case miss: False
      with True 1 show ?thesis
        by (subst scan_pixels.simps) (simp add: up shift)
    qed
  qed
qed

lemma scan_pixels_row:
  "scan_pixels mem (row_offset y stride) 0 width reads =
     ((\<exists>a\<in>set (read_row_offsets width stride y). mem a < 255),
      reads @ through (\<lambda>a. mem a < 255) (read_row_offsets width stride y))"
  by (simp add: scan_pixels_spec read_row_offsets_def)

text \<open>
  The outer loop, started at row \<open>y\<close>, does the same over the remaining rows from top
  to bottom.
\<close>

lemma scan_rows_spec:
  "scan_rows mem y width height stride reads =
     ((\<exists>a\<in>set (concat (map (read_row_offsets width stride) [y..height - 1])). mem a < 255),
      reads @ through (\<lambda>a. mem a < 255) (concat (map (read_row_offsets width stride) [y..height - 1])))"
proof (induction mem y width height stride reads rule: scan_rows.induct)
  case (1 mem y width height stride reads)
  show ?case
  proof (cases "y < height")
    case False
    then show ?thesis by (subst scan_rows.simps) simp
  next
    case True
    then have up: "[y..height - 1] = y # [y + 1..height - 1]"
      by (simp add: upto_rec1)
    show ?thesis
    proof (cases "\<exists>a\<in>set (read_row_offsets width stride y). mem a < 255")
      case hit: True
      with True show ?thesis
        by (subst scan_rows.simps) (auto simp: up scan_pixels_row through_append)
    next
      case miss: False
      let ?row = "read_row_offsets width stride y"
      let ?rest = "concat (map (read_row_offsets width stride) [y + 1..height - 1])"
      have sp: "scan_pixels mem (row_offset y stride) 0 width reads = (False, reads @ ?row)"
        using miss by (simp add: scan_pixels_row through_miss)
      have ih: "scan_rows mem (y + 1) width height stride (reads @ ?row) =
                  ((\<exists>a\<in>set ?rest. mem a < 255), (reads @ ?row) @ through (\<lambda>a. mem a < 255) ?rest)"
        using 1[OF True sp[symmetric]] by simp
      have "scan_rows mem y width height stride reads =
              scan_rows mem (y + 1) width height stride (reads @ ?row)"
        using True sp by (subst scan_rows.simps) simp
      also note ih
      finally show ?thesis
        using miss by (auto simp: up through_append)
    qed
  qed
qed

lemma read_offsets_set:
  "a \<in> set (read_offsets w h s) \<longleftrightarrow> (\<exists>y x. 0 \<le> y \<and> y < h \<and> 0 \<le> x \<and> x < w \<and> a = row_offset y s + 4 * x + 3)"
proof
  assume "a \<in> set (read_offsets w h s)"
  then obtain y x where "0 \<le> y" "y < h" "0 \<le> x" "x < w" "a = row_offset y s + 4 * x + 3"
    by (auto simp: read_offsets_def read_row_offsets_def)
  then show "\<exists>y x. 0 \<le> y \<and> y < h \<and> 0 \<le> x \<and> x < w \<and> a = row_offset y s + 4 * x + 3"
    by blast
next
  assume "\<exists>y x. 0 \<le> y \<and> y < h \<and> 0 \<le> x \<and> x < w \<and> a = row_offset y s + 4 * x + 3"
  then obtain y x where r: "0 \<le> y" "y < h" "0 \<le> x" "x < w" and a: "a = row_offset y s + 4 * x + 3"
    by blast
  from r have y: "y \<in> set [0..h - 1]" and x: "x \<in> set [0..w - 1]" by simp_all
  from x have "a \<in> set (read_row_offsets w s y)"
    unfolding read_row_offsets_def a set_map by (rule imageI)
  moreover from y have "set (read_row_offsets w s y) \<in> set (map set (map (read_row_offsets w s) [0..h - 1]))"
    unfolding set_map image_image by (rule imageI)
  ultimately show "a \<in> set (read_offsets w h s)"
    unfolding read_offsets_def set_concat set_map image_image by blast
qed

lemma alpha_offsets_set:
  "a \<in> set (alpha_offsets w h s) \<longleftrightarrow> (\<exists>y x. 0 \<le> y \<and> y < h \<and> 0 \<le> x \<and> x < w \<and> a = y * s + 4 * x + 3)"
proof
  assume "a \<in> set (alpha_offsets w h s)"
  then obtain y x where "0 \<le> y" "y < h" "0 \<le> x" "x < w" "a = y * s + 4 * x + 3"
    by (auto simp: alpha_offsets_def row_alpha_offsets_def)
  then show "\<exists>y x. 0 \<le> y \<and> y < h \<and> 0 \<le> x \<and> x < w \<and> a = y * s + 4 * x + 3"
    by blast
next
  assume "\<exists>y x. 0 \<le> y \<and> y < h \<and> 0 \<le> x \<and> x < w \<and> a = y * s + 4 * x + 3"
  then obtain y x where r: "0 \<le> y" "y < h" "0 \<le> x" "x < w" and a: "a = y * s + 4 * x + 3"
    by blast
  from r have y: "y \<in> set [0..h - 1]" and x: "x \<in> set [0..w - 1]" by simp_all
  from x have "a \<in> set (row_alpha_offsets w s y)"
    unfolding row_alpha_offsets_def a set_map by (rule imageI)
  moreover from y have "set (row_alpha_offsets w s y) \<in> set (map set (map (row_alpha_offsets w s) [0..h - 1]))"
    unfolding set_map image_image by (rule imageI)
  ultimately show "a \<in> set (alpha_offsets w h s)"
    unfolding alpha_offsets_def set_concat set_map image_image by blast
qed

text \<open>Where the product fits in 32 bits the machine multiplication is exact, and the
  offsets visited are the alpha offsets of the region.\<close>

lemma row_offset_exact:
  assumes "- (2 ^ 31) \<le> y * stride" and "y * stride < 2 ^ 31"
  shows "row_offset y stride = y * stride"
proof -
  have "word_of_int y * word_of_int stride = (word_of_int (y * stride) :: 32 word)"
    by simp
  then have "row_offset y stride = sint (word_of_int (y * stride) :: 32 word)"
    by (simp only: row_offset_def)
  also have "\<dots> = signed_take_bit (LENGTH(32) - 1) (y * stride)"
    by (rule sint_sbintrunc')
  also have "\<dots> = y * stride"
    using assms by (intro signed_take_bit_int_eq_self) simp_all
  finally show ?thesis .
qed

lemma read_offsets_exact:
  assumes "\<forall>y. 0 \<le> y \<and> y < h \<longrightarrow> - (2 ^ 31) \<le> y * s \<and> y * s < 2 ^ 31"
  shows "read_offsets w h s = alpha_offsets w h s"
proof -
  have "read_row_offsets w s y = row_alpha_offsets w s y" if "y \<in> set [0..h - 1]" for y
  proof -
    from that assms have "- (2 ^ 31) \<le> y * s" and "y * s < 2 ^ 31"
      by simp_all
    then show ?thesis
      by (simp add: read_row_offsets_def row_alpha_offsets_def row_offset_exact)
  qed
  then have "map (read_row_offsets w s) [0..h - 1] = map (row_alpha_offsets w s) [0..h - 1]"
    by (intro map_cong refl)
  then show ?thesis
    by (simp only: read_offsets_def alpha_offsets_def)
qed

text \<open>
  Claim C5. \<^verbatim>\<open>HasTransparency\<close> tests alpha bytes only, row by row from the top and from
  left to right within a row, up to and including the first one below 255, and returns
  true exactly when it meets one. For every bitmap, width, height and stride whose row
  offsets \<open>y * stride\<close>, \<open>0 \<le> y < height\<close>, fit in a 32-bit \<^verbatim>\<open>int\<close>, the bytes tested
  are those at \<open>y * stride + 4 * x + 3\<close> for the pixels \<open>(x, y)\<close> of the region, so the
  function returns true exactly when some pixel with \<open>0 \<le> x < width\<close> and
  \<open>0 \<le> y < height\<close> has its alpha byte below 255, and false on a bitmap whose alpha
  bytes are all 255 in that region.
\<close>

theorem HasTransparency_scan:
  "(fst (HasTransparency mem w h s) \<longleftrightarrow>
      (\<exists>y x. 0 \<le> y \<and> y < h \<and> 0 \<le> x \<and> x < w \<and> mem (row_offset y s + 4 * x + 3) < 255))
   \<and> snd (HasTransparency mem w h s) = through (\<lambda>a. mem a < 255) (read_offsets w h s)
   \<and> ((\<forall>y. 0 \<le> y \<and> y < h \<longrightarrow> - (2 ^ 31) \<le> y * s \<and> y * s < 2 ^ 31) \<longrightarrow>
        (fst (HasTransparency mem w h s) \<longleftrightarrow>
           (\<exists>y x. 0 \<le> y \<and> y < h \<and> 0 \<le> x \<and> x < w \<and> mem (y * s + 4 * x + 3) < 255))
      \<and> snd (HasTransparency mem w h s) = through (\<lambda>a. mem a < 255) (alpha_offsets w h s)
      \<and> ((\<forall>y x. 0 \<le> y \<and> y < h \<and> 0 \<le> x \<and> x < w \<longrightarrow> mem (y * s + 4 * x + 3) = 255)
           \<longrightarrow> \<not> fst (HasTransparency mem w h s)))"
  (is "?visited \<and> ?order \<and> (?fits \<longrightarrow> ?region \<and> ?region_order \<and> ?opaque)")
proof -
  have run: "HasTransparency mem w h s =
        ((\<exists>a\<in>set (read_offsets w h s). mem a < 255),
         through (\<lambda>a. mem a < 255) (read_offsets w h s))"
    unfolding HasTransparency_def read_offsets_def by (simp add: scan_rows_spec)
  have visited: ?visited
  proof
    assume "fst (HasTransparency mem w h s)"
    then obtain a where a: "a \<in> set (read_offsets w h s)" and lt: "mem a < 255"
      unfolding run fst_conv by (rule bexE)
    from a obtain y x where "0 \<le> y" "y < h" "0 \<le> x" "x < w" "a = row_offset y s + 4 * x + 3"
      unfolding read_offsets_set by (elim exE conjE)
    with lt show "\<exists>y x. 0 \<le> y \<and> y < h \<and> 0 \<le> x \<and> x < w \<and> mem (row_offset y s + 4 * x + 3) < 255"
      by blast
  next
    assume "\<exists>y x. 0 \<le> y \<and> y < h \<and> 0 \<le> x \<and> x < w \<and> mem (row_offset y s + 4 * x + 3) < 255"
    then obtain y x where r: "0 \<le> y" "y < h" "0 \<le> x" "x < w"
      and lt: "mem (row_offset y s + 4 * x + 3) < 255"
      by (elim exE conjE)
    from r have "row_offset y s + 4 * x + 3 \<in> set (read_offsets w h s)"
      unfolding read_offsets_set by blast
    then show "fst (HasTransparency mem w h s)"
      unfolding run fst_conv using lt by (rule bexI[rotated])
  qed
  have order: ?order
    unfolding run by simp
  have fits: "?region \<and> ?region_order \<and> ?opaque" if ?fits
  proof -
    have exact: "read_offsets w h s = alpha_offsets w h s"
      using that by (rule read_offsets_exact)
    have region: ?region
    proof
      assume "fst (HasTransparency mem w h s)"
      then obtain a where a: "a \<in> set (alpha_offsets w h s)" and lt: "mem a < 255"
        unfolding run fst_conv exact by (rule bexE)
      from a obtain y x where "0 \<le> y" "y < h" "0 \<le> x" "x < w" "a = y * s + 4 * x + 3"
        unfolding alpha_offsets_set by (elim exE conjE)
      with lt show "\<exists>y x. 0 \<le> y \<and> y < h \<and> 0 \<le> x \<and> x < w \<and> mem (y * s + 4 * x + 3) < 255"
        by blast
    next
      assume "\<exists>y x. 0 \<le> y \<and> y < h \<and> 0 \<le> x \<and> x < w \<and> mem (y * s + 4 * x + 3) < 255"
      then obtain y x where r: "0 \<le> y" "y < h" "0 \<le> x" "x < w"
        and lt: "mem (y * s + 4 * x + 3) < 255"
        by (elim exE conjE)
      from r have "y * s + 4 * x + 3 \<in> set (alpha_offsets w h s)"
        unfolding alpha_offsets_set by blast
      then show "fst (HasTransparency mem w h s)"
        unfolding run fst_conv exact using lt by (rule bexI[rotated])
    qed
    have region_order: ?region_order
      unfolding run exact by simp
    have opaque: ?opaque
    proof (intro impI notI)
      assume all: "\<forall>y x. 0 \<le> y \<and> y < h \<and> 0 \<le> x \<and> x < w \<longrightarrow> mem (y * s + 4 * x + 3) = 255"
        and "fst (HasTransparency mem w h s)"
      then obtain y x where r: "0 \<le> y" "y < h" "0 \<le> x" "x < w"
        and lt: "mem (y * s + 4 * x + 3) < 255"
        using region by blast
      from all r have "mem (y * s + 4 * x + 3) = 255" by blast
      with lt show False by simp
    qed
    from region region_order opaque show ?thesis
      by (intro conjI)
  qed
  show ?thesis
    using fits by (intro conjI impI visited order) blast+
qed

lemma opaque_bitmap_scan: "\<not> fst (HasTransparency opaque_bitmap 2 2 8)"
  by code_simp

lemma dented_bitmap_scan: "fst (HasTransparency dented_bitmap 2 2 12)"
  by code_simp

text \<open>
  The scan on two 2-by-2 bitmaps: an opaque one with stride 8, and one with stride 12
  whose bottom-right pixel has alpha 254.
\<close>

theorem HasTransparency_scan_witness:
  "\<not> fst (HasTransparency opaque_bitmap 2 2 8)
   \<and> snd (HasTransparency opaque_bitmap 2 2 8) = [3, 7, 11, 15]
   \<and> fst (HasTransparency dented_bitmap 2 2 12)
   \<and> snd (HasTransparency dented_bitmap 2 2 12) = [3, 7, 15, 19]"
proof -
  have offs8: "alpha_offsets 2 2 8 = [3, 7, 11, 15]"
    and offs12: "alpha_offsets 2 2 12 = [3, 7, 15, 19]"
    by code_simp+
  have fits8: "\<forall>y::int. 0 \<le> y \<and> y < 2 \<longrightarrow> - (2 ^ 31) \<le> y * 8 \<and> y * 8 < 2 ^ 31"
    and fits12: "\<forall>y::int. 0 \<le> y \<and> y < 2 \<longrightarrow> - (2 ^ 31) \<le> y * 12 \<and> y * 12 < 2 ^ 31"
    by simp_all
  have hit: "\<exists>y x. 0 \<le> y \<and> y < 2 \<and> 0 \<le> x \<and> x < 2 \<and> dented_bitmap (y * 12 + 4 * x + 3) < 255"
    by (intro exI[of _ 1]) (simp add: dented_bitmap_def)
  have all: "\<forall>y x. 0 \<le> y \<and> y < 2 \<and> 0 \<le> x \<and> x < 2 \<longrightarrow> opaque_bitmap (y * 8 + 4 * x + 3) = 255"
    by (simp add: opaque_bitmap_def)
  from HasTransparency_scan[of opaque_bitmap 2 2 8] fits8 all
  have "\<not> fst (HasTransparency opaque_bitmap 2 2 8)"
    and "snd (HasTransparency opaque_bitmap 2 2 8) = through (\<lambda>a. opaque_bitmap a < 255) (alpha_offsets 2 2 8)"
    by blast+
  moreover from HasTransparency_scan[of dented_bitmap 2 2 12] fits12 hit
  have "fst (HasTransparency dented_bitmap 2 2 12)"
    and "snd (HasTransparency dented_bitmap 2 2 12) = through (\<lambda>a. dented_bitmap a < 255) (alpha_offsets 2 2 12)"
    by blast+
  ultimately show ?thesis
    by (simp add: offs8 offs12 opaque_bitmap_def dented_bitmap_def)
qed

text \<open>
  Beyond 32 bits the row offset wraps: with stride \<open>2 ^ 30\<close> the third row is looked for
  at \<open>- (2 ^ 31)\<close>, not at \<open>2 ^ 31\<close>.
\<close>

lemma HasTransparency_wrapped_row:
  "snd (HasTransparency opaque_bitmap 1 3 1073741824) = [3, 1073741827, - 2147483645]"
  by code_simp

subsection \<open>\<^verbatim>\<open>WebPLoad\<close>\<close>

text \<open>
  Claim C9. \<^verbatim>\<open>WebPLoad\<close> returns \<open>errVersionMismatch\<close>, which is \<open>-1\<close>, when the
  decoder configuration cannot be initialised; otherwise it returns the status of
  \<^verbatim>\<open>WebPDecode\<close> unchanged, which is 0 (\<^verbatim>\<open>VP8_STATUS_OK\<close>) on success.
\<close>

theorem WebPLoad_status:
  "(WebPInitDecoderConfig lib = None \<longrightarrow>
      WebPLoad lib data dataSize outData outSize outStride = errVersionMismatch)
   \<and> (WebPInitDecoderConfig lib = Some config \<longrightarrow>
      WebPLoad lib data dataSize outData outSize outStride =
        WebPDecode lib data dataSize (WebPLoad_config config outData outSize outStride))
   \<and> (WebPInitDecoderConfig lib = Some config
      \<and> WebPDecode lib data dataSize (WebPLoad_config config outData outSize outStride) =
          VP8_STATUS_OK \<longrightarrow>
      WebPLoad lib data dataSize outData outSize outStride = 0)
   \<and> errVersionMismatch = - 1"
  by (simp add: WebPLoad_def codes)

text \<open>
  A decoder that cannot be initialised, one that decodes, and one that reports status 3.
\<close>

theorem WebPLoad_status_witness:
  "WebPLoad (stub_decoder False 0) [82, 73, 70, 70] 4 (Some 4096) 16 8 = - 1
   \<and> WebPLoad (stub_decoder True 0) [82, 73, 70, 70] 4 (Some 4096) 16 8 = 0
   \<and> WebPLoad (stub_decoder True 3) [82, 73, 70, 70] 4 (Some 4096) 16 8 = 3"
proof -
  have no_init: "WebPInitDecoderConfig (stub_decoder False 0) = None"
    by (simp add: stub_decoder_def)
  have init: "WebPInitDecoderConfig (stub_decoder True s) = Some stub_decoder_config" for s
    by (simp add: stub_decoder_def)
  have decode: "WebPDecode (stub_decoder True s) [82, 73, 70, 70] 4
                  (WebPLoad_config stub_decoder_config (Some 4096) 16 8) = s" for s
    by (simp add: stub_decoder_def WebPLoad_config_def)
  show ?thesis
    using WebPLoad_status[of "stub_decoder False 0" "[82, 73, 70, 70]" 4 "Some 4096" 16 8 stub_decoder_config]
      WebPLoad_status[of "stub_decoder True 0" "[82, 73, 70, 70]" 4 "Some 4096" 16 8 stub_decoder_config]
      WebPLoad_status[of "stub_decoder True 3" "[82, 73, 70, 70]" 4 "Some 4096" 16 8 stub_decoder_config]
    unfolding no_init init decode by (simp add: VP8_STATUS_OK_def)
qed

subsection \<open>The paths through \<^verbatim>\<open>WebPSave\<close>\<close>

text \<open>
  One lemma for each way out of \<^verbatim>\<open>WebPSave\<close>, giving the returned code, the value of
  the out-parameter and the calls made.
\<close>

lemma WebPSave_null_allocator:
  "WebPSave lib output None bitmap width height stride params callback =
     \<lparr>ret = VP8_ENC_ERROR_NULL_PARAMETER, out = output, trace = []\<rparr>"
  by (simp add: WebPSave_def)

lemma WebPSave_preset_failed:
  "WebPConfigPreset lib (preset params) (quality params) = None \<Longrightarrow>
   WebPSave lib output (Some alloc) bitmap width height stride params callback =
     \<lparr>ret = errVersionMismatch, out = output, trace = [Call_WebPConfigPreset]\<rparr>"
  by (simp add: WebPSave_def)

lemma WebPSave_init_failed:
  "WebPConfigPreset lib (preset params) (quality params) = Some config0 \<Longrightarrow>
   WebPPictureInit lib = None \<Longrightarrow>
   WebPSave lib output (Some alloc) bitmap width height stride params callback =
     \<lparr>ret = errVersionMismatch, out = output,
      trace = [Call_WebPConfigPreset, Call_WebPPictureInit]\<rparr>"
  by (simp add: WebPSave_def)

lemma WebPSave_import_call:
  "WebPSave_import lib pic bitmap width height stride = (r, c) \<Longrightarrow>
   c = Call_WebPPictureImportBGRA \<or> c = Call_WebPPictureImportBGRX"
  by (auto simp: WebPSave_import_def split: if_splits)

lemma WebPSave_import_failed:
  assumes "WebPConfigPreset lib (preset params) (quality params) = Some config0"
    and "WebPPictureInit lib = Some pic0"
    and "WebPSave_import lib
           (WebPSave_picture (snd (WebPSave_configure params (config0, pic0))) width height)
           bitmap width height stride = ((0, pic2), import_call)"
  shows "WebPSave lib output (Some alloc) bitmap width height stride params callback =
     \<lparr>ret = VP8_ENC_ERROR_OUT_OF_MEMORY, out = output,
      trace = [Call_WebPConfigPreset, Call_WebPPictureInit, Call_WebPMemoryWriterInit,
               import_call]\<rparr>"
  using assms by (simp add: WebPSave_def case_prod_beta Let_def)

lemma WebPSave_imported:
  assumes "WebPConfigPreset lib (preset params) (quality params) = Some config0"
    and "WebPPictureInit lib = Some pic0"
    and "WebPSave_import lib
           (WebPSave_picture (snd (WebPSave_configure params (config0, pic0))) width height)
           bitmap width height stride = ((imported, pic2), import_call)"
    and "imported \<noteq> 0"
  shows "WebPSave lib output (Some alloc) bitmap width height stride params callback =
     WebPSave_encode lib output alloc (fst (WebPSave_configure params (config0, pic0)))
       (WebPSave_hook pic2 callback)
       [Call_WebPConfigPreset, Call_WebPPictureInit, Call_WebPMemoryWriterInit, import_call]"
  using assms by (simp add: WebPSave_def case_prod_beta Let_def)

lemma WebPSave_encode_failed:
  "WebPEncode lib config pic = (0, pic', wrt) \<Longrightarrow>
   WebPSave_encode lib output alloc config pic t =
     \<lparr>ret = error_code pic', out = output,
      trace = t @ [Call_WebPEncode, Call_WebPMemoryWriterClear, Call_WebPPictureFree]\<rparr>"
  by (simp add: WebPSave_encode_def)

lemma WebPSave_encode_alloc_failed:
  "WebPEncode lib config pic = (encoded, pic', wrt) \<Longrightarrow> encoded \<noteq> 0 \<Longrightarrow>
   alloc (wrt_size wrt) = None \<Longrightarrow>
   WebPSave_encode lib output alloc config pic t =
     \<lparr>ret = VP8_ENC_ERROR_OUT_OF_MEMORY, out = None,
      trace = t @ [Call_WebPEncode, Call_outputAllocator (wrt_size wrt), Store_output None,
                   Call_WebPMemoryWriterClear, Call_WebPPictureFree]\<rparr>"
  by (simp add: WebPSave_encode_def)

lemma WebPSave_encode_delivered:
  "WebPEncode lib config pic = (encoded, pic', wrt) \<Longrightarrow> encoded \<noteq> 0 \<Longrightarrow>
   alloc (wrt_size wrt) = Some a \<Longrightarrow>
   WebPSave_encode lib output alloc config pic t =
     \<lparr>ret = 0, out = Some a,
      trace = t @ [Call_WebPEncode, Call_outputAllocator (wrt_size wrt), Store_output (Some a),
                   Call_memcpy_s (Some a) (wrt_size wrt) (Some (wrt_mem wrt)) (wrt_size wrt),
                   Call_WebPMemoryWriterClear, Call_WebPPictureFree]\<rparr>"
  by (simp add: WebPSave_encode_def)

text \<open>
  Claim C1. Every run of \<^verbatim>\<open>WebPSave\<close> releases the memory writer and the picture
  before it returns, also when the picture import fails. The source does not: with an
  encoder whose import fails, the call returns right after the import, and neither
  \<^verbatim>\<open>WebPMemoryWriterClear\<close> nor \<^verbatim>\<open>WebPPictureFree\<close> is among the calls made.
\<close>

theorem WebPSave_import_failure_skips_release:
  "WebPSave (stub_encoder True True False True) None (Some (alloc_at 4096))
      opaque_bitmap 2 2 8 lossy_text_params None =
     \<lparr>ret = VP8_ENC_ERROR_OUT_OF_MEMORY, out = None,
      trace = [Call_WebPConfigPreset, Call_WebPPictureInit, Call_WebPMemoryWriterInit,
               Call_WebPPictureImportBGRX]\<rparr>"
  by (rule WebPSave_import_failed)
     (simp_all add: stub_encoder_def WebPSave_import_def opaque_bitmap_scan)

subsection \<open>The encoder configuration\<close>

lemma configure_lossless:
  "quality params = 100 \<Longrightarrow>
   WebPSave_configure params (config0, pic0) =
     ((if preset params = WEBP_PRESET_PHOTO then
         config0\<lparr>config_method := params_method params, thread_level := 1, lossless := 1,
                  image_hint := WEBP_HINT_PHOTO\<rparr>
       else if preset params = WEBP_PRESET_PICTURE then
         config0\<lparr>config_method := params_method params, thread_level := 1, lossless := 1,
                  image_hint := WEBP_HINT_PICTURE\<rparr>
       else if preset params = WEBP_PRESET_DRAWING then
         config0\<lparr>config_method := params_method params, thread_level := 1, lossless := 1,
                  image_hint := WEBP_HINT_GRAPH\<rparr>
       else config0\<lparr>config_method := params_method params, thread_level := 1, lossless := 1\<rparr>),
      pic0\<lparr>use_argb := 1\<rparr>)"
  by (simp add: WebPSave_configure_def Let_def)

lemma configure_lossy:
  "quality params \<noteq> 100 \<Longrightarrow>
   WebPSave_configure params (config0, pic0) =
     (config0\<lparr>config_method := params_method params, thread_level := 1,
         target_size := (if fileSize params > 0 then fileSize params else target_size config0),
         filter_strength := (if preset params < WEBP_PRESET_ICON then filterStrength params
                             else filter_strength config0),
         filter_type := filterType params,
         filter_sharpness := sharpness params,
         sns_strength := noiseShaping params\<rparr>,
      pic0)"
  by (simp add: WebPSave_configure_def Let_def)

text \<open>
  Claim C4, as stated: in the lossy branch the caller's filter strength is applied for
  every preset other than the icon preset. It fails for the text preset, numbered above
  the icon preset: the configuration keeps the preset's own filter strength.
\<close>

theorem filter_strength_text_preset_counterexample:
  "quality lossy_text_params \<noteq> 100
   \<and> preset lossy_text_params \<noteq> WEBP_PRESET_ICON
   \<and> filter_strength (fst (WebPSave_configure lossy_text_params (stub_config, stub_picture)))
       \<noteq> filterStrength lossy_text_params"
  by (simp add: configure_lossy lossy_text_params_def stub_config_def codes)

text \<open>
  Claim C4, amended. In the lossy branch (quality other than 100) the caller's filter
  strength is applied exactly when the preset is numbered below the icon preset, that is
  for the default, picture, photo and drawing presets; for the icon preset and the text
  preset the configuration keeps the filter strength that the preset initialiser gave
  it.
\<close>

theorem filter_strength_lossy:
  assumes "quality params \<noteq> 100"
  shows "filter_strength (fst (WebPSave_configure params (config0, pic0))) =
           (if preset params < WEBP_PRESET_ICON then filterStrength params
            else filter_strength config0)
    \<and> (preset params \<in> {WEBP_PRESET_DEFAULT, WEBP_PRESET_PICTURE, WEBP_PRESET_PHOTO,
                           WEBP_PRESET_DRAWING} \<longrightarrow>
         filter_strength (fst (WebPSave_configure params (config0, pic0))) = filterStrength params)
    \<and> (preset params \<in> {WEBP_PRESET_ICON, WEBP_PRESET_TEXT} \<longrightarrow>
         filter_strength (fst (WebPSave_configure params (config0, pic0))) = filter_strength config0)"
  using assms by (auto simp: configure_lossy codes)

theorem filter_strength_lossy_witness:
  "filter_strength (fst (WebPSave_configure lossy_text_params (stub_config, stub_picture))) = 0
   \<and> filter_strength (fst (WebPSave_configure (lossy_text_params\<lparr>preset := WEBP_PRESET_PHOTO\<rparr>)
         (stub_config, stub_picture))) = 20"
  using filter_strength_lossy[of lossy_text_params stub_config stub_picture]
    filter_strength_lossy[of "lossy_text_params\<lparr>preset := WEBP_PRESET_PHOTO\<rparr>" stub_config stub_picture]
  by (simp add: lossy_text_params_def stub_config_def codes)

text \<open>
  Claim C8. With quality 100 \<^verbatim>\<open>WebPSave\<close> turns the lossless mode on and sets the
  image hint to a value of its own for each of the photo, picture and drawing presets,
  leaving the hint as it was for every other preset, and it applies none of the lossy
  tuning parameters. With any other quality it leaves the lossless mode as the preset
  initialiser set it and applies the lossy tuning parameters. So, starting from a
  configuration that is not lossless, the lossless mode is on exactly when quality is
  100.
\<close>

theorem WebPSave_configure_mode:
  assumes "WebPSave_configure params (config0, pic0) = (config, pic)"
  shows "(quality params = 100 \<longrightarrow>
            lossless config = 1 \<and> use_argb pic = 1
          \<and> image_hint config =
               (if preset params = WEBP_PRESET_PHOTO then WEBP_HINT_PHOTO
                else if preset params = WEBP_PRESET_PICTURE then WEBP_HINT_PICTURE
                else if preset params = WEBP_PRESET_DRAWING then WEBP_HINT_GRAPH
                else image_hint config0)
          \<and> target_size config = target_size config0
          \<and> filter_strength config = filter_strength config0
          \<and> filter_type config = filter_type config0
          \<and> filter_sharpness config = filter_sharpness config0
          \<and> sns_strength config = sns_strength config0)
       \<and> (quality params \<noteq> 100 \<longrightarrow>
            lossless config = lossless config0 \<and> use_argb pic = use_argb pic0
          \<and> image_hint config = image_hint config0
          \<and> target_size config =
               (if fileSize params > 0 then fileSize params else target_size config0)
          \<and> filter_strength config =
               (if preset params < WEBP_PRESET_ICON then filterStrength params
                else filter_strength config0)
          \<and> filter_type config = filterType params
          \<and> filter_sharpness config = sharpness params
          \<and> sns_strength config = noiseShaping params)
       \<and> (lossless config0 = 0 \<longrightarrow> (lossless config = 1 \<longleftrightarrow> quality params = 100))
       \<and> WEBP_HINT_PHOTO \<noteq> WEBP_HINT_PICTURE
       \<and> WEBP_HINT_PICTURE \<noteq> WEBP_HINT_GRAPH
       \<and> WEBP_HINT_PHOTO \<noteq> WEBP_HINT_GRAPH"
proof (cases "quality params = 100")
  case True
  from assms show ?thesis
    unfolding configure_lossless[OF True] by (auto simp: True codes)
next
  case False
  from assms show ?thesis
    unfolding configure_lossy[OF False] by (auto simp: False codes)
qed

theorem WebPSave_configure_mode_witness:
  "lossless (fst (WebPSave_configure lossless_photo_params (stub_config, stub_picture))) = 1
   \<and> image_hint (fst (WebPSave_configure lossless_photo_params (stub_config, stub_picture))) =
       WEBP_HINT_PHOTO
   \<and> lossless (fst (WebPSave_configure lossy_text_params (stub_config, stub_picture))) = 0
   \<and> sns_strength (fst (WebPSave_configure lossy_text_params (stub_config, stub_picture))) = 50"
  using WebPSave_configure_mode[OF prod.collapse[symmetric],
          of lossless_photo_params stub_config stub_picture]
        WebPSave_configure_mode[OF prod.collapse[symmetric],
          of lossy_text_params stub_config stub_picture]
  by (simp add: lossless_photo_params_def lossy_text_params_def stub_config_def codes)

subsection \<open>The paths through \<^verbatim>\<open>SetMetaData\<close>\<close>

lemma SetMetaData_null_allocator:
  "SetMetaData lib imageBytes imageSize outImage None metaData =
     \<lparr>ret = WEBP_MUX_INVALID_ARGUMENT, out = outImage, trace = []\<rparr>"
  by (simp add: SetMetaData_def)

lemma SetMetaData_set_image_failed:
  "WebPMuxNew lib = Some mux0 \<Longrightarrow>
   WebPMuxSetImage lib mux0 \<lparr>data_bytes = Some imageBytes, data_size = imageSize\<rparr> 0 = (e, m) \<Longrightarrow>
   e \<noteq> WEBP_MUX_OK \<Longrightarrow>
   SetMetaData lib imageBytes imageSize outImage (Some alloc) metaData =
     \<lparr>ret = e, out = outImage, trace = [Call_WebPMuxNew, Call_WebPMuxSetImage]\<rparr>"
  by (simp add: SetMetaData_def)

lemma SetMetaData_chunks_set:
  assumes "WebPMuxNew lib = Some mux0"
    and "WebPMuxSetImage lib mux0 \<lparr>data_bytes = Some imageBytes, data_size = imageSize\<rparr> 0 = (e, m)"
    and "e = WEBP_MUX_OK"
    and "set_xmp lib metaData (set_exif lib metaData (set_iccp lib metaData
           \<lparr>error = e, mux = m, calls = [Call_WebPMuxNew, Call_WebPMuxSetImage]\<rparr>)) = s"
  shows "SetMetaData lib imageBytes imageSize outImage (Some alloc) metaData =
           (if error s = WEBP_MUX_OK then SetMetaData_assemble lib outImage alloc s
            else \<lparr>ret = error s, out = outImage, trace = calls s\<rparr>)"
  using assms by (simp add: SetMetaData_def Let_def)

lemma SetMetaData_assemble_alloc_failed:
  "WebPMuxAssemble lib (mux s) = (e, assembledData) \<Longrightarrow> e = WEBP_MUX_OK \<Longrightarrow>
   alloc (data_size assembledData) = None \<Longrightarrow>
   SetMetaData_assemble lib outImage alloc s =
     \<lparr>ret = WEBP_MUX_MEMORY_ERROR, out = None,
      trace = calls s @ [Call_WebPMuxAssemble, Call_WebPMuxDelete,
                         Call_outputAllocator (data_size assembledData), Store_output None,
                         Call_WebPDataClear]\<rparr>"
  by (simp add: SetMetaData_assemble_def)

text \<open>
  Claim C2. Every run of \<^verbatim>\<open>SetMetaData\<close> that creates a multiplexer releases it
  before it returns, also when setting the image or a chunk fails. The source does not:
  when \<^verbatim>\<open>WebPMuxSetImage\<close> reports bad data, and when setting the ICCP chunk reports
  an invalid argument, the call returns the error and \<^verbatim>\<open>WebPMuxDelete\<close> is not among
  the calls made.
\<close>

theorem SetMetaData_failure_skips_release:
  "SetMetaData (stub_mux True WEBP_MUX_BAD_DATA (\<lambda>f. WEBP_MUX_OK) WEBP_MUX_OK)
      [0, 1, 2, 3] 4 None (Some (alloc_at 4096)) no_metadata =
     \<lparr>ret = WEBP_MUX_BAD_DATA, out = None, trace = [Call_WebPMuxNew, Call_WebPMuxSetImage]\<rparr>
   \<and> SetMetaData (stub_mux True WEBP_MUX_OK (\<lambda>f. WEBP_MUX_INVALID_ARGUMENT) WEBP_MUX_OK)
      [82, 73, 70, 70] 4 None (Some (alloc_at 4096)) icc_metadata =
     \<lparr>ret = WEBP_MUX_INVALID_ARGUMENT, out = None,
      trace = [Call_WebPMuxNew, Call_WebPMuxSetImage, Call_WebPMuxSetChunk ''ICCP'']\<rparr>"
  by (simp add: SetMetaData_def stub_mux_def set_iccp_def set_exif_def set_xmp_def
      no_metadata_def icc_metadata_def codes)

subsection \<open>The allocator\<close>

text \<open>
  Claim C6. With a null allocator \<^verbatim>\<open>WebPSave\<close> returns
  \<^verbatim>\<open>VP8_ENC_ERROR_NULL_PARAMETER\<close> and \<^verbatim>\<open>SetMetaData\<close> returns
  \<^verbatim>\<open>WEBP_MUX_INVALID_ARGUMENT\<close>, each at once: no call is made, so nothing is
  allocated, and the out-parameter holds what it held.
\<close>

theorem null_allocator_rejected:
  "WebPSave lib output None bitmap width height stride params callback =
     \<lparr>ret = VP8_ENC_ERROR_NULL_PARAMETER, out = output, trace = []\<rparr>
   \<and> SetMetaData mlib imageBytes imageSize outImage None metaData =
     \<lparr>ret = WEBP_MUX_INVALID_ARGUMENT, out = outImage, trace = []\<rparr>"
  by (simp add: WebPSave_null_allocator SetMetaData_null_allocator)

text \<open>
  Claim C7. When the encode succeeds and the allocator returns a null pointer,
  \<^verbatim>\<open>WebPSave\<close> returns \<^verbatim>\<open>VP8_ENC_ERROR_OUT_OF_MEMORY\<close>; when the assembly succeeds
  and the allocator returns a null pointer, \<^verbatim>\<open>SetMetaData\<close> returns
  \<^verbatim>\<open>WEBP_MUX_MEMORY_ERROR\<close>.
\<close>

theorem allocator_failure_is_out_of_memory:
  "(WebPConfigPreset lib (preset params) (quality params) = Some config0
      \<and> WebPPictureInit lib = Some pic0
      \<and> WebPSave_import lib
            (WebPSave_picture (snd (WebPSave_configure params (config0, pic0))) width height)
            bitmap width height stride = ((imported, pic2), import_call)
      \<and> imported \<noteq> 0
      \<and> WebPEncode lib (fst (WebPSave_configure params (config0, pic0)))
            (WebPSave_hook pic2 callback) = (encoded, pic3, wrt)
      \<and> encoded \<noteq> 0
      \<and> alloc (wrt_size wrt) = None
    \<longrightarrow> ret (WebPSave lib output (Some alloc) bitmap width height stride params callback) =
          VP8_ENC_ERROR_OUT_OF_MEMORY)
   \<and> (WebPMuxNew mlib = Some mux0
      \<and> WebPMuxSetImage mlib mux0 \<lparr>data_bytes = Some imageBytes, data_size = imageSize\<rparr> 0 =
            (WEBP_MUX_OK, m)
      \<and> set_xmp mlib metaData (set_exif mlib metaData (set_iccp mlib metaData
            \<lparr>error = WEBP_MUX_OK, mux = m, calls = [Call_WebPMuxNew, Call_WebPMuxSetImage]\<rparr>)) = s
      \<and> error s = WEBP_MUX_OK
      \<and> WebPMuxAssemble mlib (mux s) = (WEBP_MUX_OK, assembledData)
      \<and> alloc (data_size assembledData) = None
    \<longrightarrow> ret (SetMetaData mlib imageBytes imageSize outImage (Some alloc) metaData) =
          WEBP_MUX_MEMORY_ERROR)"
proof (intro conjI impI)
  assume h: "WebPConfigPreset lib (preset params) (quality params) = Some config0
      \<and> WebPPictureInit lib = Some pic0
      \<and> WebPSave_import lib
            (WebPSave_picture (snd (WebPSave_configure params (config0, pic0))) width height)
            bitmap width height stride = ((imported, pic2), import_call)
      \<and> imported \<noteq> 0
      \<and> WebPEncode lib (fst (WebPSave_configure params (config0, pic0)))
            (WebPSave_hook pic2 callback) = (encoded, pic3, wrt)
      \<and> encoded \<noteq> 0
      \<and> alloc (wrt_size wrt) = None"
  then have p: "WebPConfigPreset lib (preset params) (quality params) = Some config0"
    and i: "WebPPictureInit lib = Some pic0"
    and im: "WebPSave_import lib
            (WebPSave_picture (snd (WebPSave_configure params (config0, pic0))) width height)
            bitmap width height stride = ((imported, pic2), import_call)"
    and ok: "imported \<noteq> 0"
    and en: "WebPEncode lib (fst (WebPSave_configure params (config0, pic0)))
            (WebPSave_hook pic2 callback) = (encoded, pic3, wrt)"
    and enc: "encoded \<noteq> 0"
    and al: "alloc (wrt_size wrt) = None"
    by simp_all
  have "ret (WebPSave lib output (Some alloc) bitmap width height stride params callback) =
     ret (WebPSave_encode lib output alloc (fst (WebPSave_configure params (config0, pic0)))
       (WebPSave_hook pic2 callback)
       [Call_WebPConfigPreset, Call_WebPPictureInit, Call_WebPMemoryWriterInit, import_call])"
    by (simp only: WebPSave_imported[OF p i im ok])
  also have "\<dots> = VP8_ENC_ERROR_OUT_OF_MEMORY"
    by (simp add: WebPSave_encode_alloc_failed[where alloc = alloc, OF en enc al])
  finally show "ret (WebPSave lib output (Some alloc) bitmap width height stride params callback) =
          VP8_ENC_ERROR_OUT_OF_MEMORY" .
next
  assume h: "WebPMuxNew mlib = Some mux0
      \<and> WebPMuxSetImage mlib mux0 \<lparr>data_bytes = Some imageBytes, data_size = imageSize\<rparr> 0 =
            (WEBP_MUX_OK, m)
      \<and> set_xmp mlib metaData (set_exif mlib metaData (set_iccp mlib metaData
            \<lparr>error = WEBP_MUX_OK, mux = m, calls = [Call_WebPMuxNew, Call_WebPMuxSetImage]\<rparr>)) = s
      \<and> error s = WEBP_MUX_OK
      \<and> WebPMuxAssemble mlib (mux s) = (WEBP_MUX_OK, assembledData)
      \<and> alloc (data_size assembledData) = None"
  then have n: "WebPMuxNew mlib = Some mux0"
    and si: "WebPMuxSetImage mlib mux0 \<lparr>data_bytes = Some imageBytes, data_size = imageSize\<rparr> 0 =
            (WEBP_MUX_OK, m)"
    and ch: "set_xmp mlib metaData (set_exif mlib metaData (set_iccp mlib metaData
            \<lparr>error = WEBP_MUX_OK, mux = m, calls = [Call_WebPMuxNew, Call_WebPMuxSetImage]\<rparr>)) = s"
    and ok: "error s = WEBP_MUX_OK"
    and asm: "WebPMuxAssemble mlib (mux s) = (WEBP_MUX_OK, assembledData)"
    and al: "alloc (data_size assembledData) = None"
    by simp_all
  have "ret (SetMetaData mlib imageBytes imageSize outImage (Some alloc) metaData) =
      ret (SetMetaData_assemble mlib outImage alloc s)"
    by (simp add: SetMetaData_chunks_set[OF n si refl ch] ok)
  also have "\<dots> = WEBP_MUX_MEMORY_ERROR"
    by (simp add: SetMetaData_assemble_alloc_failed[where alloc = alloc, OF asm refl al])
  finally show "ret (SetMetaData mlib imageBytes imageSize outImage (Some alloc) metaData) =
          WEBP_MUX_MEMORY_ERROR" .
qed

theorem allocator_failure_is_out_of_memory_witness:
  "ret (WebPSave (stub_encoder True True True True) None (Some alloc_fails)
          opaque_bitmap 2 2 8 lossy_text_params None) = VP8_ENC_ERROR_OUT_OF_MEMORY
   \<and> ret (SetMetaData (stub_mux True WEBP_MUX_OK (\<lambda>f. WEBP_MUX_OK) WEBP_MUX_OK)
          [82, 73, 70, 70] 4 None (Some alloc_fails) icc_metadata) = WEBP_MUX_MEMORY_ERROR"
  using allocator_failure_is_out_of_memory
    [where lib = "stub_encoder True True True True" and params = lossy_text_params
       and ?config0.0 = stub_config and ?pic0.0 = stub_picture
       and width = 2 and height = 2 and bitmap = opaque_bitmap and stride = 8
       and imported = 1
       and ?pic2.0 = "WebPSave_picture
                     (snd (WebPSave_configure lossy_text_params (stub_config, stub_picture))) 2 2"
       and import_call = Call_WebPPictureImportBGRX and callback = None
       and encoded = 1
       and ?pic3.0 = "WebPSave_picture
                     (snd (WebPSave_configure lossy_text_params (stub_config, stub_picture))) 2 2"
       and wrt = "\<lparr>wrt_mem = [82, 73, 70, 70], wrt_size = 4\<rparr>"
       and alloc = alloc_fails and ?output = None
       and mlib = "stub_mux True WEBP_MUX_OK (\<lambda>f. WEBP_MUX_OK) WEBP_MUX_OK"
       and ?mux0.0 = "()" and imageBytes = "[82, 73, 70, 70]" and imageSize = 4 and m = "()"
       and metaData = icc_metadata
       and s = "\<lparr>error = WEBP_MUX_OK, mux = (),
                 calls = [Call_WebPMuxNew, Call_WebPMuxSetImage, Call_WebPMuxSetChunk ''ICCP'']\<rparr>"
       and assembledData = "\<lparr>data_bytes = Some [82, 73, 70, 70], data_size = 4\<rparr>"
       and outImage = None]
  by (simp add: stub_encoder_def stub_mux_def WebPSave_import_def WebPSave_hook_def
        opaque_bitmap_scan alloc_fails_def icc_metadata_def set_iccp_def set_exif_def
        set_xmp_def)

subsection \<open>The out-parameter of \<^verbatim>\<open>WebPSave\<close>\<close>

text \<open>
  Claim C10. \<^verbatim>\<open>WebPSave\<close> stores through \<^verbatim>\<open>output\<close> only after the encode has
  succeeded. With a null allocator, on a version mismatch, when the import fails and
  when the encode fails, no store is made and the out-parameter holds what it held; when
  the encode succeeds the store is the call after the allocator call that follows
  \<^verbatim>\<open>WebPEncode\<close>, and the out-parameter holds what the allocator returned.
\<close>

theorem WebPSave_output_written_only_after_encode:
  "(out (WebPSave lib output None bitmap width height stride params callback) = output
      \<and> (\<forall>p. Store_output p \<notin>
             set (trace (WebPSave lib output None bitmap width height stride params callback))))
   \<and> (WebPConfigPreset lib (preset params) (quality params) = None
        \<or> WebPConfigPreset lib (preset params) (quality params) = Some config0
          \<and> WebPPictureInit lib = None
      \<longrightarrow> ret (WebPSave lib output (Some alloc) bitmap width height stride params callback) =
            errVersionMismatch
        \<and> out (WebPSave lib output (Some alloc) bitmap width height stride params callback) =
            output
        \<and> (\<forall>p. Store_output p \<notin>
             set (trace (WebPSave lib output (Some alloc) bitmap width height stride params
                           callback))))
   \<and> (WebPConfigPreset lib (preset params) (quality params) = Some config0
        \<and> WebPPictureInit lib = Some pic0
        \<and> WebPSave_import lib
              (WebPSave_picture (snd (WebPSave_configure params (config0, pic0))) width height)
              bitmap width height stride = ((0, pic2), import_call)
      \<longrightarrow> out (WebPSave lib output (Some alloc) bitmap width height stride params callback) =
            output
        \<and> (\<forall>p. Store_output p \<notin>
             set (trace (WebPSave lib output (Some alloc) bitmap width height stride params
                           callback))))
   \<and> (WebPConfigPreset lib (preset params) (quality params) = Some config0
        \<and> WebPPictureInit lib = Some pic0
        \<and> WebPSave_import lib
              (WebPSave_picture (snd (WebPSave_configure params (config0, pic0))) width height)
              bitmap width height stride = ((imported, pic2), import_call)
        \<and> imported \<noteq> 0
        \<and> WebPEncode lib (fst (WebPSave_configure params (config0, pic0)))
              (WebPSave_hook pic2 callback) = (0, pic3, wrt)
      \<longrightarrow> ret (WebPSave lib output (Some alloc) bitmap width height stride params callback) =
            error_code pic3
        \<and> out (WebPSave lib output (Some alloc) bitmap width height stride params callback) =
            output
        \<and> (\<forall>p. Store_output p \<notin>
             set (trace (WebPSave lib output (Some alloc) bitmap width height stride params
                           callback))))
   \<and> (WebPConfigPreset lib (preset params) (quality params) = Some config0
        \<and> WebPPictureInit lib = Some pic0
        \<and> WebPSave_import lib
              (WebPSave_picture (snd (WebPSave_configure params (config0, pic0))) width height)
              bitmap width height stride = ((imported, pic2), import_call)
        \<and> imported \<noteq> 0
        \<and> WebPEncode lib (fst (WebPSave_configure params (config0, pic0)))
              (WebPSave_hook pic2 callback) = (encoded, pic3, wrt)
        \<and> encoded \<noteq> 0
      \<longrightarrow> out (WebPSave lib output (Some alloc) bitmap width height stride params callback) =
            alloc (wrt_size wrt)
        \<and> take 7 (trace (WebPSave lib output (Some alloc) bitmap width height stride params
                           callback)) =
            [Call_WebPConfigPreset, Call_WebPPictureInit, Call_WebPMemoryWriterInit,
             import_call, Call_WebPEncode, Call_outputAllocator (wrt_size wrt),
             Store_output (alloc (wrt_size wrt))])"
  (is "?null \<and> ?mismatch \<and> ?import_failed \<and> ?encode_failed \<and> ?encoded")
proof -
  let ?r = "WebPSave lib output (Some alloc) bitmap width height stride params callback"
  have n: "?null"
    by (simp add: WebPSave_null_allocator)
  have m: "?mismatch"
  proof
    assume "WebPConfigPreset lib (preset params) (quality params) = None
        \<or> WebPConfigPreset lib (preset params) (quality params) = Some config0
          \<and> WebPPictureInit lib = None"
    then consider
        (preset) "?r = \<lparr>ret = errVersionMismatch, out = output, trace = [Call_WebPConfigPreset]\<rparr>"
      | (init) "?r = \<lparr>ret = errVersionMismatch, out = output,
                      trace = [Call_WebPConfigPreset, Call_WebPPictureInit]\<rparr>"
      using WebPSave_preset_failed[of lib params "output" alloc bitmap width height stride callback]
        WebPSave_init_failed[of lib params config0 "output" alloc bitmap width height stride callback]
      by blast
    then show "ret ?r = errVersionMismatch \<and> out ?r = output
        \<and> (\<forall>p. Store_output p \<notin> set (trace ?r))"
      by cases simp_all
  qed
  have i: "?import_failed"
  proof
    assume h: "WebPConfigPreset lib (preset params) (quality params) = Some config0
        \<and> WebPPictureInit lib = Some pic0
        \<and> WebPSave_import lib
              (WebPSave_picture (snd (WebPSave_configure params (config0, pic0))) width height)
              bitmap width height stride = ((0, pic2), import_call)"
    then have "?r = \<lparr>ret = VP8_ENC_ERROR_OUT_OF_MEMORY, out = output,
        trace = [Call_WebPConfigPreset, Call_WebPPictureInit, Call_WebPMemoryWriterInit,
                 import_call]\<rparr>"
      by (simp add: WebPSave_import_failed[where ?config0.0 = config0 and ?pic0.0 = pic0
                      and ?pic2.0 = pic2])
    moreover from h have "import_call = Call_WebPPictureImportBGRA
        \<or> import_call = Call_WebPPictureImportBGRX"
      by (blast dest: WebPSave_import_call)
    ultimately show "out ?r = output \<and> (\<forall>p. Store_output p \<notin> set (trace ?r))"
      by auto
  qed
  have e: "?encode_failed"
  proof
    assume h: "WebPConfigPreset lib (preset params) (quality params) = Some config0
        \<and> WebPPictureInit lib = Some pic0
        \<and> WebPSave_import lib
              (WebPSave_picture (snd (WebPSave_configure params (config0, pic0))) width height)
              bitmap width height stride = ((imported, pic2), import_call)
        \<and> imported \<noteq> 0
        \<and> WebPEncode lib (fst (WebPSave_configure params (config0, pic0)))
              (WebPSave_hook pic2 callback) = (0, pic3, wrt)"
    then have "?r = \<lparr>ret = error_code pic3, out = output,
        trace = [Call_WebPConfigPreset, Call_WebPPictureInit, Call_WebPMemoryWriterInit,
                 import_call] @
                [Call_WebPEncode, Call_WebPMemoryWriterClear, Call_WebPPictureFree]\<rparr>"
      by (simp add: WebPSave_imported[where ?config0.0 = config0 and ?pic0.0 = pic0
                      and ?pic2.0 = pic2 and imported = imported]
                    WebPSave_encode_failed[where pic' = pic3 and wrt = wrt])
    moreover from h have "import_call = Call_WebPPictureImportBGRA
        \<or> import_call = Call_WebPPictureImportBGRX"
      by (blast dest: WebPSave_import_call)
    ultimately show "ret ?r = error_code pic3 \<and> out ?r = output
        \<and> (\<forall>p. Store_output p \<notin> set (trace ?r))"
      by auto
  qed
  have d: "?encoded"
  proof
    assume h: "WebPConfigPreset lib (preset params) (quality params) = Some config0
        \<and> WebPPictureInit lib = Some pic0
        \<and> WebPSave_import lib
              (WebPSave_picture (snd (WebPSave_configure params (config0, pic0))) width height)
              bitmap width height stride = ((imported, pic2), import_call)
        \<and> imported \<noteq> 0
        \<and> WebPEncode lib (fst (WebPSave_configure params (config0, pic0)))
              (WebPSave_hook pic2 callback) = (encoded, pic3, wrt)
        \<and> encoded \<noteq> 0"
    then have r: "?r = WebPSave_encode lib output alloc
        (fst (WebPSave_configure params (config0, pic0))) (WebPSave_hook pic2 callback)
        [Call_WebPConfigPreset, Call_WebPPictureInit, Call_WebPMemoryWriterInit, import_call]"
      by (simp add: WebPSave_imported[where ?config0.0 = config0 and ?pic0.0 = pic0
                      and ?pic2.0 = pic2 and imported = imported])
    from h have en: "WebPEncode lib (fst (WebPSave_configure params (config0, pic0)))
              (WebPSave_hook pic2 callback) = (encoded, pic3, wrt)" and ok: "encoded \<noteq> 0"
      by simp_all
    show "out ?r = alloc (wrt_size wrt)
        \<and> take 7 (trace ?r) =
            [Call_WebPConfigPreset, Call_WebPPictureInit, Call_WebPMemoryWriterInit,
             import_call, Call_WebPEncode, Call_outputAllocator (wrt_size wrt),
             Store_output (alloc (wrt_size wrt))]"
    proof (cases "alloc (wrt_size wrt)")
      case None
      show ?thesis
        unfolding r WebPSave_encode_alloc_failed[where alloc = alloc, OF en ok None]
        by (simp add: None)
    next
      case (Some a)
      show ?thesis
        unfolding r WebPSave_encode_delivered[where alloc = alloc, OF en ok Some]
        by (simp add: Some)
    qed
  qed
  show ?thesis
    by (rule conjI[OF n conjI[OF m conjI[OF i conjI[OF e d]]]])
qed

theorem WebPSave_output_written_only_after_encode_witness:
  "out (WebPSave (stub_encoder False True True True) (Some 7) (Some (alloc_at 4096))
          opaque_bitmap 2 2 8 lossy_text_params None) = Some 7
   \<and> out (WebPSave (stub_encoder True False True True) (Some 7) (Some (alloc_at 4096))
          opaque_bitmap 2 2 8 lossy_text_params None) = Some 7
   \<and> out (WebPSave (stub_encoder True True False True) (Some 7) (Some (alloc_at 4096))
          opaque_bitmap 2 2 8 lossy_text_params None) = Some 7
   \<and> out (WebPSave (stub_encoder True True True False) (Some 7) (Some (alloc_at 4096))
          opaque_bitmap 2 2 8 lossy_text_params None) = Some 7
   \<and> out (WebPSave (stub_encoder True True True True) (Some 7) (Some (alloc_at 4096))
          opaque_bitmap 2 2 8 lossy_text_params None) = Some 4096"
proof -
  let ?pic = "WebPSave_picture
                (snd (WebPSave_configure lossy_text_params (stub_config, stub_picture))) 2 2"
  note inst = WebPSave_output_written_only_after_encode
    [where params = lossy_text_params and ?config0.0 = stub_config and ?pic0.0 = stub_picture
       and width = 2 and height = 2 and bitmap = opaque_bitmap and stride = 8
       and ?pic2.0 = ?pic and import_call = Call_WebPPictureImportBGRX and callback = None
       and alloc = "alloc_at 4096" and ?output = "Some 7"]
  show ?thesis
    using inst[where lib = "stub_encoder False True True True"]
      inst[where lib = "stub_encoder True False True True"]
      inst[where lib = "stub_encoder True True False True"]
      inst[where lib = "stub_encoder True True True False" and imported = 1
             and ?pic3.0 = "?pic\<lparr>error_code := 4\<rparr>"
             and wrt = "\<lparr>wrt_mem = [], wrt_size = 0\<rparr>"]
      inst[where lib = "stub_encoder True True True True" and imported = 1 and encoded = 1
             and ?pic3.0 = ?pic and wrt = "\<lparr>wrt_mem = [82, 73, 70, 70], wrt_size = 4\<rparr>"]
    by (simp add: stub_encoder_def WebPSave_import_def WebPSave_hook_def opaque_bitmap_scan
          alloc_at_def)
qed

subsection \<open>Metadata queries\<close>

lemma GetMetaDataSize_demux_failed:
  "WebPDemux lib \<lparr>data_bytes = Some data, data_size = dataSize\<rparr> = None \<Longrightarrow>
   GetMetaDataSize lib data dataSize type = (0, [Call_WebPDemux])"
  by (simp add: GetMetaDataSize_def)

lemma ExtractMetaData_demux_failed:
  "WebPDemux lib \<lparr>data_bytes = Some data, data_size = dataSize\<rparr> = None \<Longrightarrow>
   ExtractMetaData lib data dataSize outData outSize type = [Call_WebPDemux]"
  by (simp add: ExtractMetaData_def)

lemma find_chunk_flag_absent:
  "flags AND (case type of ColorProfile \<Rightarrow> ICCP_FLAG | EXIF \<Rightarrow> EXIF_FLAG | XMP \<Rightarrow> XMP_FLAG) = 0 \<Longrightarrow>
   find_chunk lib demux flags type iter = (iter, [])"
  by (cases type) (simp_all add: find_chunk_def)

lemma GetMetaDataSize_flag_absent:
  "WebPDemux lib \<lparr>data_bytes = Some data, data_size = dataSize\<rparr> = Some demux \<Longrightarrow>
   WebPDemuxGetI lib demux WEBP_FF_FORMAT_FLAGS
     AND (case type of ColorProfile \<Rightarrow> ICCP_FLAG | EXIF \<Rightarrow> EXIF_FLAG | XMP \<Rightarrow> XMP_FLAG) = 0 \<Longrightarrow>
   GetMetaDataSize lib data dataSize type =
     (0, [Call_WebPDemux, Call_WebPDemuxGetI, Call_WebPDemuxReleaseChunkIterator,
          Call_WebPDemuxDelete])"
  by (simp add: GetMetaDataSize_def find_chunk_flag_absent zero_iterator_def)

lemma ExtractMetaData_flag_absent:
  "WebPDemux lib \<lparr>data_bytes = Some data, data_size = dataSize\<rparr> = Some demux \<Longrightarrow>
   WebPDemuxGetI lib demux WEBP_FF_FORMAT_FLAGS
     AND (case type of ColorProfile \<Rightarrow> ICCP_FLAG | EXIF \<Rightarrow> EXIF_FLAG | XMP \<Rightarrow> XMP_FLAG) = 0 \<Longrightarrow>
   ExtractMetaData lib data dataSize outData outSize type =
     [Call_WebPDemux, Call_WebPDemuxGetI,
      Call_memcpy_s outData (unat outSize) None (unat outSize),
      Call_WebPDemuxReleaseChunkIterator, Call_WebPDemuxDelete]"
  by (simp add: ExtractMetaData_def find_chunk_flag_absent zero_iterator_def)

text \<open>
  Claim C3. When the container cannot be opened or the flag of the requested kind is
  not set, \<^verbatim>\<open>GetMetaDataSize\<close> gives size 0 and \<^verbatim>\<open>ExtractMetaData\<close> copies
  nothing. The first half holds (lemmas above). The second holds only when the
  container cannot be opened: on a container that opens and has no ICCP flag,
  \<^verbatim>\<open>ExtractMetaData\<close> still calls \<^verbatim>\<open>memcpy_s\<close> on the caller's buffer, with a null
  source and the caller's byte count.
\<close>

theorem ExtractMetaData_absent_flag_copies:
  "ExtractMetaData (stub_demux True 0 (\<lambda>f. None)) [82, 73, 70, 70] 4 (Some 4096) 4
      ColorProfile =
     [Call_WebPDemux, Call_WebPDemuxGetI, Call_memcpy_s (Some 4096) 4 None 4,
      Call_WebPDemuxReleaseChunkIterator, Call_WebPDemuxDelete]"
  by (simp add: ExtractMetaData_def stub_demux_def find_chunk_def zero_iterator_def codes)

end
